theory Spec2Isabelle
  imports Complex_Main
begin

section \<open>Python values\<close>

text \<open>
  The values that reach the functions below are Python objects. A \<open>str\<close> is a list of
  characters with code points below 256; a \<open>dict\<close> is an association list read with
  \<open>map_of\<close>. A \<open>float\<close> is an IEEE 754 double: \<open>PyFloat r\<close> is the finite double whose
  value is the rational \<open>r\<close> (zero stands for both zeros: the sign of a zero shows neither
  in its truth value nor in \<open>round\<close>), and \<open>PyInf\<close>, \<open>PyNegInf\<close> and \<open>PyNan\<close> are
  \<open>inf\<close>, \<open>-inf\<close> and \<open>nan\<close>.
\<close>

datatype pyval =
    PyNone
  | PyBool bool
  | PyInt int
  | PyFloat rat
  | PyInf
  | PyNegInf
  | PyNan
  | PyStr string
  | PyList "pyval list"
  | PyDict "(string \<times> pyval) list"

datatype py_error =
    InvalidConfigError string
  | ValueError string
  | KeyError string
  | TypeError
  | OverflowError
  | MemoryError

text \<open>\<open>isinstance(n, str)\<close> and \<open>isinstance(n, int)\<close>; \<open>bool\<close> is a subclass of \<open>int\<close>.\<close>

fun isinstance_str :: "pyval \<Rightarrow> bool" where
  "isinstance_str (PyStr s) = True"
| "isinstance_str v = False"

fun isinstance_int :: "pyval \<Rightarrow> bool" where
  "isinstance_int (PyInt i) = True"
| "isinstance_int (PyBool b) = True"
| "isinstance_int v = False"

text \<open>
  \<open>str.isdigit()\<close>: true when the string has at least one character and every character
  is a digit. Below code point 256 the digits are \<open>0\<close> to \<open>9\<close> and the superscripts
  U+00B2, U+00B3 and U+00B9.
\<close>

definition char_isdigit :: "char \<Rightarrow> bool" where
  "char_isdigit c =
     (let k = (of_char c :: nat)
      in (48 \<le> k \<and> k \<le> 57) \<or> k = 178 \<or> k = 179 \<or> k = 185)"

definition str_isdigit :: "string \<Rightarrow> bool" where
  "str_isdigit s = (s \<noteq> [] \<and> list_all char_isdigit s)"

text \<open>Truthiness, as \<open>bool(v)\<close> gives it.\<close>

fun py_truthy :: "pyval \<Rightarrow> bool" where
  "py_truthy PyNone = False"
| "py_truthy (PyBool b) = b"
| "py_truthy (PyInt i) = (i \<noteq> 0)"
| "py_truthy (PyFloat r) = (r \<noteq> 0)"
| "py_truthy PyInf = True"
| "py_truthy PyNegInf = True"
| "py_truthy PyNan = True"
| "py_truthy (PyStr s) = (s \<noteq> [])"
| "py_truthy (PyList xs) = (xs \<noteq> [])"
| "py_truthy (PyDict kvs) = (kvs \<noteq> [])"

text \<open>\<open>a or b\<close>.\<close>

definition py_or :: "pyval \<Rightarrow> pyval \<Rightarrow> pyval" where
  "py_or a b = (if py_truthy a then a else b)"

text \<open>\<open>d[k]\<close> with a string key: only a dict can be subscripted by a string.\<close>

fun py_getitem :: "pyval \<Rightarrow> string \<Rightarrow> py_error + pyval" where
  "py_getitem (PyDict kvs) k =
     (case map_of kvs k of None \<Rightarrow> Inl (KeyError k) | Some v \<Rightarrow> Inr v)"
| "py_getitem v k = Inl TypeError"

text \<open>\<open>d.get(k, None)\<close> on a dict.\<close>

definition dict_get :: "(string \<times> pyval) list \<Rightarrow> string \<Rightarrow> pyval" where
  "dict_get kvs k = (case map_of kvs k of None \<Rightarrow> PyNone | Some v \<Rightarrow> v)"

text \<open>\<open>round(x)\<close> of an exact value: the nearest int, a tie going to the even one.\<close>

definition round_half_even :: "rat \<Rightarrow> int" where
  "round_half_even r =
     (let f = \<lfloor>r\<rfloor>; d = r - of_int f
      in if d < 1 / 2 then f
         else if 1 / 2 < d then f + 1
         else if even f then f else f + 1)"

text \<open>\<open>int.bit_length()\<close> of a non-negative int.\<close>

function bit_length :: "int \<Rightarrow> nat" where
  "bit_length n = (if n \<le> 0 then 0 else Suc (bit_length (n div 2)))"
  by pat_completeness auto

termination
  by (relation "measure nat") auto

declare bit_length.simps [simp del]

text \<open>The power of two with an integer exponent.\<close>

definition pow2 :: "int \<Rightarrow> rat" where
  "pow2 e = (if 0 \<le> e then 2 ^ nat e else 1 / 2 ^ nat (- e))"

text \<open>For a positive \<open>a\<close>, the exponent \<open>e\<close> with \<open>2 ^ e \<le> a < 2 ^ (e + 1)\<close>.\<close>

definition floor_log2 :: "rat \<Rightarrow> int" where
  "floor_log2 a =
     (if 1 \<le> a then int (bit_length \<lfloor>a\<rfloor>) - 1
      else - int (bit_length (\<lceil>1 / a\<rceil> - 1)))"

text \<open>
  Rounding an exact value to a double, to nearest with ties to even: the significand has
  53 bits, the least exponent of its last bit is \<open>-1074\<close> (subnormal numbers), and a result
  of magnitude \<open>2 ^ 1024\<close> or more is an overflow, here \<open>None\<close>.
\<close>

definition round_double :: "rat \<Rightarrow> rat option" where
  "round_double q =
     (if q = 0 then Some 0
      else let a = \<bar>q\<bar>;
               u = max (floor_log2 a - 52) (- 1074);
               r = of_int (round_half_even (a / pow2 u)) * pow2 u
           in if pow2 1024 \<le> r then None else Some (sgn q * r))"

text \<open>
  An arithmetic operator with a float operand converts its \<open>int\<close> operand to a float:
  the nearest double, or \<open>OverflowError\<close> (int too large to convert to float).
\<close>

definition float_of_int :: "int \<Rightarrow> py_error + rat" where
  "float_of_int n =
     (case round_double (of_int n) of None \<Rightarrow> Inl OverflowError | Some x \<Rightarrow> Inr x)"

text \<open>
  The float that an arithmetic operation with the exact result \<open>q\<close> returns: \<open>q\<close>
  rounded, an infinity on overflow.
\<close>

definition float_result :: "rat \<Rightarrow> pyval" where
  "float_result q =
     (case round_double q of
        Some x \<Rightarrow> PyFloat x
      | None \<Rightarrow> if q < 0 then PyNegInf else PyInf)"

text \<open>
  \<open>sys.maxsize\<close> of a 64-bit build, the greatest length of a sequence.
\<close>

definition maxsize :: int where
  "maxsize = 2 ^ 63 - 1"

text \<open>
  \<open>a * n\<close> for an \<open>int\<close> \<open>n\<close>. A float converts \<open>n\<close> to a float first and multiplies as
  doubles do (\<open>inf * 0.0\<close> is \<open>nan\<close>); ints multiply exactly; \<open>None\<close> and a dict raise
  \<open>TypeError\<close>. A sequence is repeated: a count that is no index-sized integer raises
  \<open>OverflowError\<close>, and a result longer than \<open>sys.maxsize\<close> raises \<open>OverflowError\<close> for
  a str and \<open>MemoryError\<close> for a list. A shorter result is taken to fit into memory.
\<close>

fun py_mul_int :: "pyval \<Rightarrow> int \<Rightarrow> py_error + pyval" where
  "py_mul_int (PyFloat r) n =
     (case float_of_int n of Inl e \<Rightarrow> Inl e | Inr x \<Rightarrow> Inr (float_result (r * x)))"
| "py_mul_int PyInf n =
     (case float_of_int n of
        Inl e \<Rightarrow> Inl e
      | Inr x \<Rightarrow> Inr (if x = 0 then PyNan else if 0 < x then PyInf else PyNegInf))"
| "py_mul_int PyNegInf n =
     (case float_of_int n of
        Inl e \<Rightarrow> Inl e
      | Inr x \<Rightarrow> Inr (if x = 0 then PyNan else if 0 < x then PyNegInf else PyInf))"
| "py_mul_int PyNan n =
     (case float_of_int n of Inl e \<Rightarrow> Inl e | Inr x \<Rightarrow> Inr PyNan)"
| "py_mul_int (PyInt i) n = Inr (PyInt (i * n))"
| "py_mul_int (PyBool b) n = Inr (PyInt ((if b then 1 else 0) * n))"
| "py_mul_int (PyStr s) n =
     (if n < - maxsize - 1 \<or> maxsize < n then Inl OverflowError
      else if maxsize < int (length s) * n then Inl OverflowError
      else Inr (PyStr (concat (replicate (nat n) s))))"
| "py_mul_int (PyList xs) n =
     (if n < - maxsize - 1 \<or> maxsize < n then Inl OverflowError
      else if maxsize < int (length xs) * n then Inl MemoryError
      else Inr (PyList (concat (replicate (nat n) xs))))"
| "py_mul_int PyNone n = Inl TypeError"
| "py_mul_int (PyDict kvs) n = Inl TypeError"

text \<open>
  \<open>round(x)\<close> with one argument: a finite float goes to the nearest int, ties to even; an
  infinity raises \<open>OverflowError\<close> and \<open>nan\<close> raises \<open>ValueError\<close>.
\<close>

fun py_round :: "pyval \<Rightarrow> py_error + int" where
  "py_round (PyFloat r) = Inr (round_half_even r)"
| "py_round PyInf = Inl OverflowError"
| "py_round PyNegInf = Inl OverflowError"
| "py_round PyNan = Inl (ValueError ''cannot convert float NaN to integer'')"
| "py_round (PyInt i) = Inr i"
| "py_round (PyBool b) = Inr (if b then 1 else 0)"
| "py_round v = Inl TypeError"

section \<open>SqlAlchemyDataSampler\<close>

subsection \<open>\<open>_validate_mssql_limit_param\<close>\<close>

definition validate_mssql_limit_param :: "pyval \<Rightarrow> py_error + unit" where
  "validate_mssql_limit_param n =
     (if \<not> (isinstance_str n \<or> isinstance_int n) then
        Inl (InvalidConfigError
          ''Please specify your sampling kwargs 'n' parameter as a string or int.'')
      else if isinstance_str n \<and> \<not> (case n of PyStr s \<Rightarrow> str_isdigit s | _ \<Rightarrow> False) then
        Inl (InvalidConfigError
          (''If specifying your sampling kwargs 'n' parameter as a string please ensure it is '' @
           ''parseable as an integer.''))
      else Inr ())"

subsection \<open>\<open>sample_using_random\<close>\<close>

text \<open>
  The returned selectable: \<open>select * from table(table_name, schema) where where_clause
  order by random() limit sample_size\<close>.
\<close>

record 'w select_query =
  sel_table :: pyval
  sel_schema :: pyval
  sel_where :: "'w option"
  sel_order_by_random :: bool
  sel_limit :: int

text \<open>
  The execution engine is a parameter: \<open>count_rows table schema where_clause\<close> is the
  scalar the engine returns for the \<open>count(*)\<close> query. The statements run in the source's
  order, so a missing \<open>table_name\<close> raises before \<open>sampling_kwargs\<close> is read.
\<close>

definition sample_using_random ::
  "(pyval \<Rightarrow> pyval \<Rightarrow> 'w option \<Rightarrow> int) \<Rightarrow> (string \<times> pyval) list \<Rightarrow> 'w option
     \<Rightarrow> py_error + 'w select_query" where
  "sample_using_random count_rows batch_spec where_clause =
     (case py_getitem (PyDict batch_spec) ''table_name'' of
        Inl e \<Rightarrow> Inl e
      | Inr table_name \<Rightarrow>
          let schema = dict_get batch_spec ''schema_name'';
              num_rows = count_rows table_name schema where_clause
          in (case py_getitem (PyDict batch_spec) ''sampling_kwargs'' of
                Inl e \<Rightarrow> Inl e
              | Inr kw \<Rightarrow>
                 (case py_getitem kw ''p'' of
                    Inl e \<Rightarrow> Inl e
                  | Inr p0 \<Rightarrow>
                     (case py_mul_int (py_or p0 (PyFloat 1)) num_rows of
                        Inl e \<Rightarrow> Inl e
                      | Inr scaled \<Rightarrow>
                         (case py_round scaled of
                            Inl e \<Rightarrow> Inl e
                          | Inr sample_size \<Rightarrow>
                              Inr \<lparr> sel_table = table_name, sel_schema = schema,
                                    sel_where = where_clause, sel_order_by_random = True,
                                    sel_limit = sample_size \<rparr>)))))"

section \<open>Test helper \<open>get_validator_with_expectation_suite\<close>\<close>

text \<open>
  The helper as the notebook cell of \<open>test_volume_data_assistant.py\<close> defines it. The data
  context is the list of the names of the suites it stores; \<open>get_expectation_suite\<close>
  raises \<open>DataContextError\<close> for a name it does not store, and the helper then calls
  \<open>create_expectation_suite\<close> and prints a line. \<open>materialize_batch_request\<close> and the
  text of \<open>str(uuid.uuid4())\<close> are parameters; the validator is the pair of arguments
  that \<open>data_context.get_validator\<close> receives.
\<close>

record expectation_suite =
  expectation_suite_name :: string
  expectations :: "pyval list"

record data_context =
  stored_suites :: "string list"

record 'b validator =
  val_batch_request :: 'b
  val_expectation_suite_name :: "string option"

record 'b helper_result =
  res_validator :: "'b validator"
  res_context :: data_context
  res_printed :: "string list"

text \<open>
  The \<open>if\<close>/\<open>elif\<close> chain at the head of the helper: it raises, or sets
  \<open>(generate_temp_expectation_suite_name, create_expectation_suite)\<close>.
\<close>

definition suite_flags ::
  "expectation_suite option \<Rightarrow> string option \<Rightarrow> py_error + (bool \<times> bool)" where
  \<open>suite_flags expectation_suite suite_name =
     (case (expectation_suite, suite_name) of
        (Some s, Some n) \<Rightarrow>
          if expectation_suite_name s \<noteq> n then
            Inl (ValueError
              ''Mutually inconsistent "expectation_suite" and "expectation_suite_name" were specified.'')
          else Inr (False, False)
      | (None, Some n) \<Rightarrow> Inr (False, True)
      | (Some s, None) \<Rightarrow> Inr (False, False)
      | (None, None) \<Rightarrow> Inr (True, True))\<close>

definition get_validator_with_expectation_suite ::
  "('r \<Rightarrow> 'b) \<Rightarrow> string \<Rightarrow> 'r \<Rightarrow> data_context \<Rightarrow> expectation_suite option
     \<Rightarrow> string option \<Rightarrow> string option \<Rightarrow> py_error + 'b helper_result" where
  \<open>get_validator_with_expectation_suite materialize_batch_request uuid4 batch_request
       data_context expectation_suite suite_name component_name =
     (case suite_flags expectation_suite suite_name of
        Inl e \<Rightarrow> Inl e
      | Inr (generate_temp_expectation_suite_name, create_expectation_suite) \<Rightarrow>
          let component =
                (case component_name of
                   None \<Rightarrow> ''test''
                 | Some c \<Rightarrow> if c = [] then ''test'' else c);
              name =
                (if generate_temp_expectation_suite_name
                 then Some (''tmp.'' @ component @ ''.suite_'' @ take 8 uuid4)
                 else suite_name);
              missing =
                (create_expectation_suite \<and>
                 (case name of None \<Rightarrow> False
                  | Some n \<Rightarrow> n \<notin> set (stored_suites data_context)));
              context' =
                (if missing
                 then data_context\<lparr>stored_suites :=
                        stored_suites data_context @ [the name]\<rparr>
                 else data_context);
              printed =
                (if missing
                 then [''Created ExpectationSuite "'' @ the name @ ''".'']
                 else [])
          in Inr \<lparr> res_validator =
                     \<lparr> val_batch_request = materialize_batch_request batch_request,
                       val_expectation_suite_name = name \<rparr>,
                   res_context = context',
                   res_printed = printed \<rparr>)\<close>

section \<open>The rule evaluation engine\<close>

subsection \<open>Values, errors and the binding environment\<close>

text \<open>
  Modelled from the spec: the configuration and result values of the profiler, which is not
  under \<open>src/\<close>. They are the JSON-like values of sections 3 and 6: \<open>None\<close>, booleans,
  numbers, strings, sequences and mappings. A number is the rational it denotes, so
  \<open>10000\<close> and \<open>10000.0\<close> are the same value, as they are for Python's \<open>==\<close>; a
  mapping is an association list read with \<open>map_of\<close>.
\<close>

datatype jval =
    JNone
  | JBool bool
  | JNum rat
  | JStr string
  | JList "jval list"
  | JDict "(string \<times> jval) list"

text \<open>
  Modelled from the spec: the error taxonomy of section 7, as far as the modelled components raise
  it. \<open>ConfigurationResolutionError\<close> names the offending reference;
  \<open>MetricComputationError\<close> carries the metric name and the domain.
\<close>

datatype profiler_error =
    ConfigurationResolutionError string
  | MetricComputationError string jval
  | InvalidEstimatorConfigError

text \<open>
  Modelled from the spec: the run-scoped binding environment of section 4.1, keyed by the
  namespaces \<open>variables\<close>, \<open>parameter\<close> and \<open>domain\<close>.
\<close>

record binding_environment =
  env_variables :: jval
  env_parameter :: jval
  env_domain :: jval

subsection \<open>Reference Resolver\<close>

text \<open>
  Modelled from the spec: section 4.1 marks a reference by its leading \<open>$\<close>; every other string
  passes through unchanged.
\<close>

fun is_reference :: "string \<Rightarrow> bool" where
  "is_reference [] = False"
| "is_reference (c # cs) = (c = CHR ''$'')"

text \<open>
  Modelled from the spec: the dotted path of a reference (section 4.1) is cut at each
  separator; \<open>split_on c\<close> is \<open>str.split(c)\<close>.
\<close>

fun split_on :: "char \<Rightarrow> string \<Rightarrow> string list" where
  "split_on c [] = [[]]"
| "split_on c (x # xs) =
     (if x = c then [] # split_on c xs
      else (case split_on c xs of
              [] \<Rightarrow> [[x]]
            | w # ws \<Rightarrow> (x # w) # ws))"

text \<open>
  Modelled from the spec: the decimal digits of the optional index of a reference
  (section 4.1).
\<close>

definition digit_value :: "char \<Rightarrow> nat option" where
  "digit_value c =
     (let k = (of_char c :: nat) in if 48 \<le> k \<and> k \<le> 57 then Some (k - 48) else None)"

text \<open>
  Modelled from the spec: the optional index of a reference is a non-negative decimal integer
  (section 4.1).
\<close>

fun parse_nat_acc :: "nat \<Rightarrow> string \<Rightarrow> nat option" where
  "parse_nat_acc acc [] = Some acc"
| "parse_nat_acc acc (c # cs) =
     (case digit_value c of None \<Rightarrow> None | Some d \<Rightarrow> parse_nat_acc (10 * acc + d) cs)"

text \<open>
  Modelled from the spec: the index between the brackets of a reference (section 4.1); no digits
  is no integer.
\<close>

definition parse_nat :: "string \<Rightarrow> nat option" where
  "parse_nat s = (if s = [] then None else parse_nat_acc 0 s)"

text \<open>
  Modelled from the spec: the last path segment of a reference may end in \<open>[index]\<close>
  (section 4.1); the result is the key and the optional index.
\<close>

definition parse_segment :: "string \<Rightarrow> (string \<times> nat option) option" where
  "parse_segment seg =
     (let key = takeWhile (\<lambda>c. c \<noteq> CHR ''['') seg;
          rest = dropWhile (\<lambda>c. c \<noteq> CHR ''['') seg
      in if rest = [] then Some (key, None)
         else if last rest = CHR '']'' then
           (case parse_nat (butlast (tl rest)) of
              None \<Rightarrow> None
            | Some i \<Rightarrow> Some (key, Some i))
         else None)"

text \<open>
  Modelled from the spec: the pattern \<open>$<namespace>.<dotted.path>[index]\<close> of section 4.1:
  the namespace, the non-empty path of non-empty keys, and the optional index. A string
  that begins with \<open>$\<close> and does not fit the pattern cannot be resolved.
\<close>

definition parse_reference :: "string \<Rightarrow> (string \<times> string list \<times> nat option) option" where
  "parse_reference s =
     (case split_on (CHR ''.'') (tl s) of
        ns # p # ps \<Rightarrow>
          (case parse_segment (last (p # ps)) of
             None \<Rightarrow> None
           | Some (key, idx) \<Rightarrow>
               if ns = [] \<or> [] \<in> set (butlast (p # ps) @ [key])
               then None
               else Some (ns, butlast (p # ps) @ [key], idx))
      | _ \<Rightarrow> None)"

text \<open>
  Modelled from the spec: the dotted-path traversal of section 4.1, by key access into nested
  mappings.
\<close>

fun lookup_path :: "jval \<Rightarrow> string list \<Rightarrow> jval option" where
  "lookup_path v [] = Some v"
| "lookup_path (JDict kvs) (k # ks) =
     (case map_of kvs k of None \<Rightarrow> None | Some v \<Rightarrow> lookup_path v ks)"
| "lookup_path v (k # ks) = None"

text \<open>
  Modelled from the spec: the optional integer indexing of section 4.1, into a sequence and
  within its length.
\<close>

fun index_value :: "jval \<Rightarrow> nat option \<Rightarrow> jval option" where
  "index_value v None = Some v"
| "index_value (JList xs) (Some i) = (if i < length xs then Some (xs ! i) else None)"
| "index_value v (Some i) = None"

text \<open>
  Modelled from the spec: the three namespaces that key the binding environment
  (section 4.1).
\<close>

definition namespace_root :: "binding_environment \<Rightarrow> string \<Rightarrow> jval option" where
  "namespace_root env ns =
     (if ns = ''variables'' then Some (env_variables env)
      else if ns = ''parameter'' then Some (env_parameter env)
      else if ns = ''domain'' then Some (env_domain env)
      else None)"

text \<open>
  Modelled from the spec: the lookup of one reference (section 4.1). Whatever cannot be
  resolved fails with \<open>ConfigurationResolutionError\<close> on the reference; nothing is
  defaulted.
\<close>

definition resolve_reference :: "binding_environment \<Rightarrow> string \<Rightarrow> profiler_error + jval" where
  "resolve_reference env s =
     (case parse_reference s of
        None \<Rightarrow> Inl (ConfigurationResolutionError s)
      | Some (ns, path, idx) \<Rightarrow>
          (case namespace_root env ns of
             None \<Rightarrow> Inl (ConfigurationResolutionError s)
           | Some base \<Rightarrow>
               (case lookup_path base path of
                  None \<Rightarrow> Inl (ConfigurationResolutionError s)
                | Some v \<Rightarrow>
                    (case index_value v idx of
                       None \<Rightarrow> Inl (ConfigurationResolutionError s)
                     | Some w \<Rightarrow> Inr w))))"

text \<open>
  Modelled from the spec: the Reference Resolver of section 4.1. It recurses over mappings and
  sequences and replaces every reference string by the value bound to it. It is single
  pass, as the section documents: the value it puts in place of a reference is not
  resolved again.
\<close>

fun resolve :: "binding_environment \<Rightarrow> jval \<Rightarrow> profiler_error + jval"
  and resolve_list :: "binding_environment \<Rightarrow> jval list \<Rightarrow> profiler_error + jval list"
  and resolve_dict ::
    "binding_environment \<Rightarrow> (string \<times> jval) list \<Rightarrow> profiler_error + (string \<times> jval) list"
where
  "resolve env (JStr s) = (if is_reference s then resolve_reference env s else Inr (JStr s))"
| "resolve env (JList xs) =
     (case resolve_list env xs of Inl e \<Rightarrow> Inl e | Inr ys \<Rightarrow> Inr (JList ys))"
| "resolve env (JDict kvs) =
     (case resolve_dict env kvs of Inl e \<Rightarrow> Inl e | Inr kws \<Rightarrow> Inr (JDict kws))"
| "resolve env JNone = Inr JNone"
| "resolve env (JBool b) = Inr (JBool b)"
| "resolve env (JNum r) = Inr (JNum r)"
| "resolve_list env [] = Inr []"
| "resolve_list env (x # xs) =
     (case resolve env x of
        Inl e \<Rightarrow> Inl e
      | Inr y \<Rightarrow> (case resolve_list env xs of Inl e \<Rightarrow> Inl e | Inr ys \<Rightarrow> Inr (y # ys)))"
| "resolve_dict env [] = Inr []"
| "resolve_dict env ((k, v) # kvs) =
     (case resolve env v of
        Inl e \<Rightarrow> Inl e
      | Inr w \<Rightarrow> (case resolve_dict env kvs of Inl e \<Rightarrow> Inl e | Inr kws \<Rightarrow> Inr ((k, w) # kws)))"

text \<open>
  Modelled from the spec: \<open>fully concrete\<close> (section 4.6) for a value: no string in it is a
  reference.
\<close>

fun concrete :: "jval \<Rightarrow> bool"
  and concrete_list :: "jval list \<Rightarrow> bool"
  and concrete_dict :: "(string \<times> jval) list \<Rightarrow> bool"
where
  "concrete (JStr s) = (\<not> is_reference s)"
| "concrete (JList xs) = concrete_list xs"
| "concrete (JDict kvs) = concrete_dict kvs"
| "concrete JNone = True"
| "concrete (JBool b) = True"
| "concrete (JNum r) = True"
| "concrete_list [] = True"
| "concrete_list (x # xs) = (concrete x \<and> concrete_list xs)"
| "concrete_dict [] = True"
| "concrete_dict ((k, v) # kvs) = (concrete v \<and> concrete_dict kvs)"

subsection \<open>External collaborators\<close>

text \<open>
  Modelled from the spec: the external collaborators of sections 1 and 6, which the engine uses
  as black boxes, and the choices the spec leaves to configuration. \<open>compute_metric\<close>
  is the metric computation collaborator of section 6 (\<open>None\<close> when it raises);
  \<open>semantic_type\<close> gives the declared semantic type of a column (section 4.4);
  \<open>seed_generator\<close> and \<open>draw\<close> are the pseudo-random generator of the bootstrap
  (section 4.3, step 2), \<open>draw\<close> giving a raw number and the next state; \<open>statistic\<close> is
  the reducer applied to each resample; \<open>quantile\<close> the empirical quantile of step 3;
  \<open>kde_interval\<close> the kernel density strategy. \<open>clock\<close> and \<open>elapsed\<close> are the date
  of the citation and the execution time of the run.
\<close>

record 'g backend =
  compute_metric :: "string \<Rightarrow> jval \<Rightarrow> jval \<Rightarrow> string list \<Rightarrow> (string \<times> rat) list option"
  semantic_type :: "string \<Rightarrow> string"
  seed_generator :: "int \<Rightarrow> 'g"
  draw :: "'g \<Rightarrow> nat \<times> 'g"
  statistic :: "rat list \<Rightarrow> rat"
  quantile :: "rat list \<Rightarrow> rat \<Rightarrow> rat"
  kde_interval :: "rat list \<Rightarrow> rat \<Rightarrow> rat \<times> rat"
  clock :: string
  elapsed :: rat

subsection \<open>Metric Aggregator\<close>

text \<open>
  Modelled from the spec: the Metric Aggregator of section 4.2. One request covers all
  batches; the values come back in the order of the batch identifiers, together with
  the values attributed to each batch. If the collaborator raises, or leaves out a batch
  it was asked for, the aggregator fails with \<open>MetricComputationError\<close>, naming the
  metric and the domain.
\<close>

definition aggregate ::
  "'g backend \<Rightarrow> string \<Rightarrow> jval \<Rightarrow> jval \<Rightarrow> jval \<Rightarrow> string list
     \<Rightarrow> profiler_error + (rat list \<times> (string \<times> rat) list)" where
  "aggregate B metric_name domain domain_kwargs value_kwargs batch_ids =
     (case compute_metric B metric_name domain_kwargs value_kwargs batch_ids of
        None \<Rightarrow> Inl (MetricComputationError metric_name domain)
      | Some m \<Rightarrow>
          if list_all (\<lambda>b. map_of m b \<noteq> None) batch_ids
          then Inr (map (\<lambda>b. the (map_of m b)) batch_ids,
                    map (\<lambda>b. (b, the (map_of m b))) batch_ids)
          else Inl (MetricComputationError metric_name domain))"

subsection \<open>Numeric Range Estimator\<close>

text \<open>
  Modelled from the spec: the estimator strategies of section 4.3.
\<close>

datatype estimator_kind = Exact | Bootstrap | Quantiles | Kde

text \<open>
  Modelled from the spec: the \<open>truncate\<close> argument of section 4.3, each limit optional.
\<close>

record truncation =
  lower_bound :: "rat option"
  upper_bound :: "rat option"

text \<open>
  Modelled from the spec: step 1 of section 4.3: one distinct value repeated, or a single
  value.
\<close>

fun degenerate :: "rat list \<Rightarrow> bool" where
  "degenerate [] = False"
| "degenerate (x # xs) = list_all (\<lambda>y. y = x) xs"

text \<open>
  Modelled from the spec: step 2 of section 4.3: one bootstrap resample, \<open>k\<close> draws with
  replacement from the series.
\<close>

fun resample :: "('g \<Rightarrow> nat \<times> 'g) \<Rightarrow> rat list \<Rightarrow> nat \<Rightarrow> 'g \<Rightarrow> rat list \<times> 'g" where
  "resample next_raw xs 0 g = ([], g)"
| "resample next_raw xs (Suc k) g =
     (case next_raw g of
        (i, g1) \<Rightarrow>
          (case resample next_raw xs k g1 of
             (ys, g2) \<Rightarrow> (xs ! (i mod length xs) # ys, g2)))"

text \<open>
  Modelled from the spec: step 2 of section 4.3: the statistic of each of \<open>m\<close> resamples of
  the size of the series, and the generator state afterwards.
\<close>

fun bootstrap_distribution :: "'g backend \<Rightarrow> rat list \<Rightarrow> nat \<Rightarrow> 'g \<Rightarrow> rat list \<times> 'g" where
  "bootstrap_distribution B xs 0 g = ([], g)"
| "bootstrap_distribution B xs (Suc m) g =
     (case resample (draw B) xs (length xs) g of
        (ys, g1) \<Rightarrow>
          (case bootstrap_distribution B xs m g1 of
             (ds, g2) \<Rightarrow> (statistic B ys # ds, g2)))"

text \<open>
  Modelled from the spec: step 4 of section 4.3: the lower bound is raised to
  \<open>lower_bound\<close> and the upper bound lowered to \<open>upper_bound\<close>, where given.
\<close>

definition apply_truncate :: "truncation \<Rightarrow> rat \<times> rat \<Rightarrow> rat \<times> rat" where
  "apply_truncate t b =
     ((case lower_bound t of None \<Rightarrow> fst b | Some l \<Rightarrow> max l (fst b)),
      (case upper_bound t of None \<Rightarrow> snd b | Some u \<Rightarrow> min u (snd b)))"

text \<open>
  Modelled from the spec: step 5 of section 4.3: rounding to \<open>d\<close> decimals. Ties go to
  the even neighbour, as Python's and NumPy's rounding do.
\<close>

definition round_decimal :: "int \<Rightarrow> rat \<Rightarrow> rat" where
  "round_decimal d x =
     (if 0 \<le> d then of_int (round_half_even (x * 10 ^ nat d)) / 10 ^ nat d
      else of_int (round_half_even (x / 10 ^ nat (- d))) * 10 ^ nat (- d))"

text \<open>
  Modelled from the spec: step 5 of section 4.3: both bounds are rounded when
  \<open>round_decimals\<close> is given.
\<close>

definition apply_round :: "int option \<Rightarrow> rat \<times> rat \<Rightarrow> rat \<times> rat" where
  "apply_round rd b =
     (case rd of None \<Rightarrow> b | Some d \<Rightarrow> (round_decimal d (fst b), round_decimal d (snd b)))"

text \<open>
  Modelled from the spec: steps 2 and 3 of section 4.3 and the alternative strategies. The
  bootstrap takes the \<open>false_positive_rate / 2\<close> and \<open>1 - false_positive_rate / 2\<close>
  quantiles of the distribution of the resampled statistic. With a \<open>random_seed\<close> the
  generator is made from the seed and the ambient generator state is left as it was;
  without one the ambient generator is used and advanced.
\<close>

definition raw_interval ::
  "'g backend \<Rightarrow> rat list \<Rightarrow> rat \<Rightarrow> estimator_kind \<Rightarrow> nat \<Rightarrow> int option \<Rightarrow> 'g
     \<Rightarrow> (rat \<times> rat) \<times> 'g" where
  "raw_interval B vals fpr est num_samples random_seed g =
     (case est of
        Exact \<Rightarrow> ((Min (set vals), Max (set vals)), g)
      | Quantiles \<Rightarrow> ((quantile B vals (fpr / 2), quantile B vals (1 - fpr / 2)), g)
      | Kde \<Rightarrow> (kde_interval B vals fpr, g)
      | Bootstrap \<Rightarrow>
          (case random_seed of
             Some s \<Rightarrow>
               (case bootstrap_distribution B vals num_samples (seed_generator B s) of
                  (stats, g1) \<Rightarrow>
                    ((quantile B stats (fpr / 2), quantile B stats (1 - fpr / 2)), g))
           | None \<Rightarrow>
               (case bootstrap_distribution B vals num_samples g of
                  (stats, g1) \<Rightarrow>
                    ((quantile B stats (fpr / 2), quantile B stats (1 - fpr / 2)), g1))))"

text \<open>
  Modelled from the spec: the Numeric Range Estimator of section 4.3. The settings are
  checked first (\<open>InvalidEstimatorConfigError\<close> for a rate outside \<open>[0, 1)\<close> or no
  samples); a degenerate series returns its value as both bounds with no resampling,
  truncation or rounding; otherwise the interval is truncated and then rounded. The spec
  does not say what an empty series yields: the model fails there rather than make up a
  bound. The \<open>details\<close> of the contract are attached by the parameter builder below,
  which knows the metric configuration.
\<close>

definition estimate ::
  "'g backend \<Rightarrow> rat list \<Rightarrow> rat \<Rightarrow> estimator_kind \<Rightarrow> int \<Rightarrow> int option \<Rightarrow> truncation
     \<Rightarrow> int option \<Rightarrow> 'g \<Rightarrow> profiler_error + ((rat \<times> rat) \<times> 'g)" where
  "estimate B vals fpr est num_samples random_seed trunc round_decimals g =
     (if fpr < 0 \<or> 1 \<le> fpr \<or> num_samples \<le> 0 \<or> vals = [] then
        Inl InvalidEstimatorConfigError
      else if degenerate vals then Inr ((hd vals, hd vals), g)
      else
        (case raw_interval B vals fpr est (nat num_samples) random_seed g of
           (b, g') \<Rightarrow> Inr (apply_round round_decimals (apply_truncate trunc b), g')))"

subsection \<open>Parameter Builder Pipeline\<close>

text \<open>
  Modelled from the spec: a resolved setting that must be a number (section 4.3).
\<close>

definition as_rat :: "jval \<Rightarrow> rat option" where
  "as_rat v = (case v of JNum r \<Rightarrow> Some r | _ \<Rightarrow> None)"

text \<open>
  Modelled from the spec: a resolved setting that must be an integer (section 4.3).
\<close>

definition as_int :: "jval \<Rightarrow> int option" where
  "as_int v = (case v of JNum r \<Rightarrow> if of_int \<lfloor>r\<rfloor> = r then Some \<lfloor>r\<rfloor> else None | _ \<Rightarrow> None)"

text \<open>
  Modelled from the spec: a resolved setting that is an integer or absent (section 4.3:
  \<open>random_seed\<close>, \<open>round_decimals\<close>).
\<close>

definition as_optional_int :: "jval \<Rightarrow> int option option" where
  "as_optional_int v =
     (if v = JNone then Some None
      else (case as_int v of None \<Rightarrow> None | Some i \<Rightarrow> Some (Some i)))"

text \<open>
  Modelled from the spec: the \<open>estimator\<close> variable names its strategy (section 4.3).
\<close>

definition as_estimator :: "jval \<Rightarrow> estimator_kind option" where
  "as_estimator v =
     (if v = JStr ''exact'' then Some Exact
      else if v = JStr ''bootstrap'' then Some Bootstrap
      else if v = JStr ''quantiles'' then Some Quantiles
      else if v = JStr ''kde'' then Some Kde
      else None)"

text \<open>
  Modelled from the spec: one limit of \<open>truncate_values\<close>: absent, \<open>None\<close> or a number.
\<close>

definition as_limit :: "jval option \<Rightarrow> rat option option" where
  "as_limit v =
     (case v of
        None \<Rightarrow> Some None
      | Some JNone \<Rightarrow> Some None
      | Some (JNum r) \<Rightarrow> Some (Some r)
      | Some _ \<Rightarrow> None)"

text \<open>
  Modelled from the spec: the \<open>truncate_values\<close> variable (section 3), a mapping with the
  optional keys \<open>lower_bound\<close> and \<open>upper_bound\<close>.
\<close>

definition as_truncation :: "jval \<Rightarrow> truncation option" where
  "as_truncation v =
     (case v of
        JNone \<Rightarrow> Some \<lparr>lower_bound = None, upper_bound = None\<rparr>
      | JDict kvs \<Rightarrow>
          (case (as_limit (map_of kvs ''lower_bound''), as_limit (map_of kvs ''upper_bound'')) of
             (Some l, Some u) \<Rightarrow> Some \<lparr>lower_bound = l, upper_bound = u\<rparr>
           | _ \<Rightarrow> None)
      | _ \<Rightarrow> None)"

text \<open>
  Modelled from the spec: the Metric Multi-Batch Parameter Builder of section 4.5, with the
  fields its entries have in the profiler configuration of
  \<open>test_get_metrics_and_expectations\<close>. A field may hold a reference.
  \<open>evaluation_parameter_builder_configs\<close> is left out: it is \<open>None\<close> in every builder of
  that configuration, and builders run in declaration order.
\<close>

record metric_builder =
  pb_name :: string
  metric_name :: string
  metric_domain_kwargs :: jval
  metric_value_kwargs :: jval

text \<open>
  Modelled from the spec: the Numeric Metric Range Multi-Batch Parameter Builder of
  section 4.5: the metric fields and the settings of the estimator, each a value or a
  reference.
\<close>

record range_builder = metric_builder +
  false_positive_rate :: jval
  estimator :: jval
  num_bootstrap_samples :: jval
  bootstrap_random_seed :: jval
  truncate_values :: jval
  round_decimals :: jval

text \<open>
  Modelled from the spec: the two built-in kinds of parameter builder (section 4.5), a
  tagged variant as section 6 describes the configuration.
\<close>

datatype parameter_builder =
    MetricMultiBatchParameterBuilder metric_builder
  | NumericMetricRangeMultiBatchParameterBuilder range_builder

text \<open>
  Modelled from the spec: storing under a key of a mapping, in place when the key is there.
\<close>

fun dict_set :: "string \<Rightarrow> jval \<Rightarrow> (string \<times> jval) list \<Rightarrow> (string \<times> jval) list" where
  "dict_set k v [] = [(k, v)]"
| "dict_set k v ((k', v') # kvs) =
     (if k = k' then (k, v) # kvs else (k', v') # dict_set k v kvs)"

text \<open>
  Modelled from the spec: a parameter node is stored under its dotted name, so that
  \<open>$parameter.<name>\<close> reaches it (section 4.5).
\<close>

fun put_path :: "string list \<Rightarrow> jval \<Rightarrow> jval \<Rightarrow> jval" where
  "put_path [] node container = node"
| "put_path (k # ks) node (JDict kvs) =
     JDict (dict_set k
       (put_path ks node (case map_of kvs k of None \<Rightarrow> JDict [] | Some c \<Rightarrow> c)) kvs)"
| "put_path (k # ks) node other = JDict [(k, put_path ks node (JDict []))]"

text \<open>
  Modelled from the spec: a builder's output becomes addressable as \<open>$parameter.<name>\<close>
  (section 4.5).
\<close>

definition put_parameter :: "string \<Rightarrow> jval \<Rightarrow> binding_environment \<Rightarrow> binding_environment" where
  "put_parameter name node env =
     env\<lparr>env_parameter := put_path (split_on (CHR ''.'') name) node (env_parameter env)\<rparr>"

text \<open>
  Modelled from the spec: the parameter node stored under a name (section 3).
\<close>

definition get_parameter :: "binding_environment \<Rightarrow> string \<Rightarrow> jval option" where
  "get_parameter env name = lookup_path (env_parameter env) (split_on (CHR ''.'') name)"

text \<open>
  Modelled from the spec: the \<open>domain_kwargs\<close> of a domain (section 3).
\<close>

definition domain_kwargs_of :: "jval \<Rightarrow> jval" where
  "domain_kwargs_of d = (case lookup_path d [''domain_kwargs''] of None \<Rightarrow> JDict [] | Some k \<Rightarrow> k)"

text \<open>
  Modelled from the spec: the \<open>metric_domain_kwargs\<close> of a builder: the domain's own
  when the field is \<open>None\<close>, the resolved field otherwise.
\<close>

definition resolve_domain_kwargs :: "binding_environment \<Rightarrow> jval \<Rightarrow> profiler_error + jval" where
  "resolve_domain_kwargs env field =
     (if field = JNone then Inr (domain_kwargs_of (env_domain env)) else resolve env field)"

text \<open>
  Modelled from the spec: the \<open>details\<close> of a parameter node (section 3), which the
  builders, not under \<open>src/\<close>, attach to a parameter. The spec and the test disagree on
  the payload. Section 4.3 (item 6) lists the estimator name, the number of bootstrap
  samples and the false-positive rate beside the metric configuration. The payloads that
  \<open>test_get_metrics_and_expectations\<close> asserts, for the metric parameter (lines
  272-280) and, under \<open>meta.profiler_details\<close>, for the range estimate (lines
  1909-1919, 1928-1938), hold the metric configuration (\<open>metric_name\<close>,
  \<open>domain_kwargs\<close>, \<open>metric_value_kwargs\<close>, \<open>metric_dependencies\<close>) and
  \<open>num_batches\<close>, and nothing else. The test is the code at hand, so the payload
  here is the one it asserts, with the metric configuration of section 3.
\<close>

definition metric_details :: "string \<Rightarrow> jval \<Rightarrow> jval \<Rightarrow> nat \<Rightarrow> jval" where
  "metric_details name domain_kwargs value_kwargs num_batches =
     JDict [(''metric_configuration'',
             JDict [(''metric_name'', JStr name),
                    (''domain_kwargs'', domain_kwargs),
                    (''metric_value_kwargs'', value_kwargs),
                    (''metric_dependencies'', JNone)]),
            (''num_batches'', JNum (of_nat num_batches))]"

text \<open>
  Modelled from the spec: the first stage of both builders (section 4.5): resolve the metric's
  keyword arguments, ask the Metric Aggregator for the series, and describe it.
\<close>

definition fetch_series ::
  "'g backend \<Rightarrow> string list \<Rightarrow> 'a metric_builder_scheme \<Rightarrow> binding_environment
     \<Rightarrow> profiler_error + (rat list \<times> (string \<times> rat) list \<times> jval)" where
  "fetch_series B batch_ids mb env =
     (case resolve_domain_kwargs env (metric_domain_kwargs mb) of
        Inl e \<Rightarrow> Inl e
      | Inr dk \<Rightarrow>
          (case resolve env (metric_value_kwargs mb) of
             Inl e \<Rightarrow> Inl e
           | Inr vk \<Rightarrow>
               (case aggregate B (metric_name mb) (env_domain env) dk vk batch_ids of
                  Inl e \<Rightarrow> Inl e
                | Inr (vals, attributed) \<Rightarrow>
                    Inr (vals, attributed,
                         metric_details (metric_name mb) dk vk (length batch_ids)))))"

text \<open>
  Modelled from the spec: the Metric Multi-Batch Parameter Builder (section 4.5): the node
  holds the per-batch series as \<open>value\<close>, the attributed values and the details.
\<close>

definition build_metric_parameter ::
  "'g backend \<Rightarrow> string list \<Rightarrow> metric_builder \<Rightarrow> binding_environment
     \<Rightarrow> profiler_error + binding_environment" where
  "build_metric_parameter B batch_ids mb env =
     (case fetch_series B batch_ids mb env of
        Inl e \<Rightarrow> Inl e
      | Inr (vals, attributed, details) \<Rightarrow>
          Inr (put_parameter (pb_name mb)
                 (JDict [(''value'', JList (map JNum vals)),
                         (''attributed_value'',
                          JDict (map (\<lambda>(b, v). (b, JList [JNum v])) attributed)),
                         (''details'', details)]) env))"

text \<open>
  Modelled from the spec: the arguments of the estimator's contract (section 4.3) after
  resolution.
\<close>

record estimator_settings =
  set_false_positive_rate :: rat
  set_estimator :: estimator_kind
  set_num_samples :: int
  set_random_seed :: "int option"
  set_truncate :: truncation
  set_round_decimals :: "int option"

text \<open>
  Modelled from the spec: one setting of the estimator: resolved (section 4.1), then read;
  a value of the wrong kind is \<open>InvalidEstimatorConfigError\<close> (section 7).
\<close>

definition resolve_setting ::
  "binding_environment \<Rightarrow> jval \<Rightarrow> (jval \<Rightarrow> 'a option) \<Rightarrow> profiler_error + 'a" where
  "resolve_setting env field decode =
     (case resolve env field of
        Inl e \<Rightarrow> Inl e
      | Inr v \<Rightarrow> (case decode v of None \<Rightarrow> Inl InvalidEstimatorConfigError | Some x \<Rightarrow> Inr x))"

text \<open>
  Modelled from the spec: the settings of a range builder, resolved in turn.
\<close>

definition resolve_settings ::
  "binding_environment \<Rightarrow> range_builder \<Rightarrow> profiler_error + estimator_settings" where
  "resolve_settings env rb =
     (case resolve_setting env (false_positive_rate rb) as_rat of
        Inl e \<Rightarrow> Inl e
      | Inr fpr \<Rightarrow>
     (case resolve_setting env (estimator rb) as_estimator of
        Inl e \<Rightarrow> Inl e
      | Inr est \<Rightarrow>
     (case resolve_setting env (num_bootstrap_samples rb) as_int of
        Inl e \<Rightarrow> Inl e
      | Inr n \<Rightarrow>
     (case resolve_setting env (bootstrap_random_seed rb) as_optional_int of
        Inl e \<Rightarrow> Inl e
      | Inr seed \<Rightarrow>
     (case resolve_setting env (truncate_values rb) as_truncation of
        Inl e \<Rightarrow> Inl e
      | Inr tr \<Rightarrow>
     (case resolve_setting env (round_decimals rb) as_optional_int of
        Inl e \<Rightarrow> Inl e
      | Inr rd \<Rightarrow>
          Inr \<lparr> set_false_positive_rate = fpr, set_estimator = est, set_num_samples = n,
                set_random_seed = seed, set_truncate = tr, set_round_decimals = rd \<rparr>))))))"

text \<open>
  Modelled from the spec: the Numeric Metric Range Multi-Batch Parameter Builder
  (section 4.5): fetch the series, estimate the range, and store the bounds as
  \<open>value[0]\<close> and \<open>value[1]\<close> beside the details.
\<close>

definition build_range_parameter ::
  "'g backend \<Rightarrow> string list \<Rightarrow> range_builder \<Rightarrow> binding_environment \<Rightarrow> 'g
     \<Rightarrow> profiler_error + (binding_environment \<times> 'g)" where
  "build_range_parameter B batch_ids rb env g =
     (case resolve_settings env rb of
        Inl e \<Rightarrow> Inl e
      | Inr st \<Rightarrow>
          (case fetch_series B batch_ids rb env of
             Inl e \<Rightarrow> Inl e
           | Inr (vals, attributed, details) \<Rightarrow>
               (case estimate B vals (set_false_positive_rate st) (set_estimator st)
                       (set_num_samples st) (set_random_seed st) (set_truncate st)
                       (set_round_decimals st) g of
                  Inl e \<Rightarrow> Inl e
                | Inr ((lo, hi), g') \<Rightarrow>
                    Inr (put_parameter (pb_name rb)
                           (JDict [(''value'', JList [JNum lo, JNum hi]),
                                   (''details'', details)]) env, g'))))"

text \<open>
  Modelled from the spec: one parameter builder, by kind (section 4.5).
\<close>

fun build_parameter ::
  "'g backend \<Rightarrow> string list \<Rightarrow> parameter_builder \<Rightarrow> binding_environment \<Rightarrow> 'g
     \<Rightarrow> profiler_error + (binding_environment \<times> 'g)" where
  "build_parameter B batch_ids (MetricMultiBatchParameterBuilder mb) env g =
     (case build_metric_parameter B batch_ids mb env of
        Inl e \<Rightarrow> Inl e
      | Inr env' \<Rightarrow> Inr (env', g))"
| "build_parameter B batch_ids (NumericMetricRangeMultiBatchParameterBuilder rb) env g =
     build_range_parameter B batch_ids rb env g"

text \<open>
  Modelled from the spec: the Parameter Builder Pipeline of section 4.5: the builders of
  one domain run in declaration order, each seeing the parameters of the earlier ones;
  the first failure ends the evaluation.
\<close>

fun run_parameter_builders ::
  "'g backend \<Rightarrow> string list \<Rightarrow> parameter_builder list \<Rightarrow> binding_environment \<Rightarrow> 'g
     \<Rightarrow> profiler_error + (binding_environment \<times> 'g)" where
  "run_parameter_builders B batch_ids [] env g = Inr (env, g)"
| "run_parameter_builders B batch_ids (pb # pbs) env g =
     (case build_parameter B batch_ids pb env g of
        Inl e \<Rightarrow> Inl e
      | Inr (env1, g1) \<Rightarrow> run_parameter_builders B batch_ids pbs env1 g1)"

subsection \<open>Expectation Configuration Builder\<close>

text \<open>
  Modelled from the spec: the template of section 4.6: the expectation type, the keyword
  arguments and the \<open>meta\<close> mapping, whose values may be references, an optional
  condition, and the validation parameter builders that the entries of the test's
  profiler configuration carry.
\<close>

record expectation_configuration_builder =
  expectation_type :: string
  kwargs :: "(string \<times> jval) list"
  meta :: "(string \<times> jval) list"
  condition :: "jval option"
  validation_parameter_builders :: "parameter_builder list"

text \<open>
  Modelled from the spec: an assertion configuration (section 4.6).
\<close>

record expectation_configuration =
  ec_expectation_type :: string
  ec_kwargs :: "(string \<times> jval) list"
  ec_meta :: "(string \<times> jval) list"

text \<open>
  Modelled from the spec: the \<open>condition\<close> of section 4.6: absent, or a value that after
  resolution is not false.
\<close>

definition condition_holds ::
  "binding_environment \<Rightarrow> jval option \<Rightarrow> profiler_error + bool" where
  "condition_holds env c =
     (case c of
        None \<Rightarrow> Inr True
      | Some v \<Rightarrow> (case resolve env v of Inl e \<Rightarrow> Inl e | Inr w \<Rightarrow> Inr (w \<noteq> JBool False)))"

text \<open>
  Modelled from the spec: the Expectation Configuration Builder of section 4.6: a false
  condition suppresses the configuration; otherwise the keyword arguments and the
  \<open>meta\<close> mapping are resolved (section 4.1) and one configuration is emitted.
\<close>

definition emit_expectation_configuration ::
  "binding_environment \<Rightarrow> expectation_configuration_builder
     \<Rightarrow> profiler_error + expectation_configuration option" where
  "emit_expectation_configuration env b =
     (case condition_holds env (condition b) of
        Inl e \<Rightarrow> Inl e
      | Inr False \<Rightarrow> Inr None
      | Inr True \<Rightarrow>
          (case resolve_dict env (kwargs b) of
             Inl e \<Rightarrow> Inl e
           | Inr kw \<Rightarrow>
               (case resolve_dict env (meta b) of
                  Inl e \<Rightarrow> Inl e
                | Inr m \<Rightarrow>
                    Inr (Some \<lparr> ec_expectation_type = expectation_type b,
                                ec_kwargs = kw, ec_meta = m \<rparr>))))"

text \<open>
  Modelled from the spec: the expectation configuration builders of a rule, in declaration
  order for one domain; each first runs its validation parameter builders.
\<close>

fun run_expectation_builders ::
  "'g backend \<Rightarrow> string list \<Rightarrow> expectation_configuration_builder list
     \<Rightarrow> binding_environment \<Rightarrow> 'g
     \<Rightarrow> profiler_error + (expectation_configuration list \<times> 'g)" where
  "run_expectation_builders B batch_ids [] env g = Inr ([], g)"
| "run_expectation_builders B batch_ids (b # bs) env g =
     (case run_parameter_builders B batch_ids (validation_parameter_builders b) env g of
        Inl e \<Rightarrow> Inl e
      | Inr (env1, g1) \<Rightarrow>
          (case emit_expectation_configuration env1 b of
             Inl e \<Rightarrow> Inl e
           | Inr c \<Rightarrow>
               (case run_expectation_builders B batch_ids bs env1 g1 of
                  Inl e \<Rightarrow> Inl e
                | Inr (cs, g2) \<Rightarrow> Inr ((case c of None \<Rightarrow> cs | Some x \<Rightarrow> x # cs), g2))))"

subsection \<open>Domain Builder\<close>

text \<open>
  Modelled from the spec: the filters of the Column Domain Builder (section 4.4), by column
  name, name suffix and semantic type; the fields are those of the test's profiler
  configuration.
\<close>

record column_filters =
  include_column_names :: "string list option"
  exclude_column_names :: "string list option"
  include_column_name_suffixes :: "string list option"
  exclude_column_name_suffixes :: "string list option"
  include_semantic_types :: "string list option"
  exclude_semantic_types :: "string list option"

text \<open>
  Modelled from the spec: the two built-in domain builders (section 4.4).
\<close>

datatype domain_builder = TableDomainBuilder | ColumnDomainBuilder column_filters

text \<open>
  Modelled from the spec: a column name ends in a suffix (section 4.4).
\<close>

definition has_suffix :: "string \<Rightarrow> string \<Rightarrow> bool" where
  "has_suffix c suf = (length suf \<le> length c \<and> drop (length c - length suf) c = suf)"

text \<open>
  Modelled from the spec: an inclusion filter (section 4.4): absent, or one of its entries
  fits.
\<close>

definition included :: "'a list option \<Rightarrow> ('a \<Rightarrow> bool) \<Rightarrow> bool" where
  "included allow p = (case allow of None \<Rightarrow> True | Some xs \<Rightarrow> list_ex p xs)"

text \<open>
  Modelled from the spec: an exclusion filter (section 4.4): present, and one of its entries
  fits.
\<close>

definition excluded :: "'a list option \<Rightarrow> ('a \<Rightarrow> bool) \<Rightarrow> bool" where
  "excluded deny p = (case deny of None \<Rightarrow> False | Some xs \<Rightarrow> list_ex p xs)"

text \<open>
  Modelled from the spec: the filters of section 4.4, composed by logical and.
\<close>

definition column_survives :: "'g backend \<Rightarrow> column_filters \<Rightarrow> string \<Rightarrow> bool" where
  "column_survives B f c =
     (included (include_column_names f) (\<lambda>n. n = c)
      \<and> \<not> excluded (exclude_column_names f) (\<lambda>n. n = c)
      \<and> included (include_column_name_suffixes f) (has_suffix c)
      \<and> \<not> excluded (exclude_column_name_suffixes f) (has_suffix c)
      \<and> included (include_semantic_types f) (\<lambda>t. t = semantic_type B c)
      \<and> \<not> excluded (exclude_semantic_types f) (\<lambda>t. t = semantic_type B c))"

text \<open>
  Modelled from the spec: the table domain (sections 3 and 4.4): type \<open>table\<close>, no keyword
  arguments.
\<close>

definition table_domain :: jval where
  "table_domain = JDict [(''domain_type'', JStr ''table''), (''domain_kwargs'', JDict [])]"

text \<open>
  Modelled from the spec: the domain of one column (section 3).
\<close>

definition column_domain :: "string \<Rightarrow> jval" where
  "column_domain c =
     JDict [(''domain_type'', JStr ''column''),
            (''domain_kwargs'', JDict [(''column'', JStr c)])]"

text \<open>
  Modelled from the spec: the Domain Builder of section 4.4: the one table domain, or one
  domain per surviving column, in the order of the columns.
\<close>

fun build_domains :: "'g backend \<Rightarrow> domain_builder \<Rightarrow> string list \<Rightarrow> jval list" where
  "build_domains B TableDomainBuilder columns = [table_domain]"
| "build_domains B (ColumnDomainBuilder f) columns =
     map column_domain (filter (column_survives B f) columns)"

subsection \<open>Rule / Profiler Orchestrator\<close>

text \<open>
  Modelled from the spec: a rule (section 3): its variables, one domain builder, and its
  parameter builders and expectation configuration builders in order.
\<close>

record rule =
  rule_name :: string
  rule_variables :: "(string \<times> jval) list"
  rule_domain_builder :: domain_builder
  parameter_builders :: "parameter_builder list"
  expectation_configuration_builders :: "expectation_configuration_builder list"

text \<open>
  Modelled from the spec: the configuration surface of section 6. The rules are kept in
  declaration order.
\<close>

record profiler_config =
  config_name :: string
  config_version :: rat
  variables :: "(string \<times> jval) list"
  rules :: "rule list"

text \<open>
  Modelled from the spec: the variables in effect for a rule (\<open>rules + resolved variables\<close>,
  section 4.7): its own, and the profiler's where the rule sets none of
  that name. The citation that \<open>test_get_metrics_and_expectations\<close> expects lists
  \<open>bootstrap_random_seed\<close>, a profiler variable, among the variables of each rule.
\<close>

definition effective_variables ::
  "(string \<times> jval) list \<Rightarrow> (string \<times> jval) list \<Rightarrow> (string \<times> jval) list" where
  "effective_variables profiler_vars rule_vars =
     rule_vars @ filter (\<lambda>(k, v). map_of rule_vars k = None) profiler_vars"

text \<open>
  Modelled from the spec: the effective profiler configuration of section 4.7: every rule
  with the variables in effect for it.
\<close>

definition effective_config :: "profiler_config \<Rightarrow> profiler_config" where
  "effective_config cfg =
     cfg\<lparr>rules :=
       map (\<lambda>r. r\<lparr>rule_variables := effective_variables (variables cfg) (rule_variables r)\<rparr>)
         (rules cfg)\<rparr>"

text \<open>
  Modelled from the spec: the name under which a builder stores its parameter
  (section 4.5).
\<close>

fun parameter_builder_name :: "parameter_builder \<Rightarrow> string" where
  "parameter_builder_name (MetricMultiBatchParameterBuilder mb) = pb_name mb"
| "parameter_builder_name (NumericMetricRangeMultiBatchParameterBuilder rb) = pb_name rb"

text \<open>
  Modelled from the spec: the entry of \<open>metrics_by_domain\<close> (section 6) for one domain, keyed
  by \<open>$parameter.<name>\<close> for the parameter builders of the rule.
\<close>

definition domain_metrics ::
  "binding_environment \<Rightarrow> parameter_builder list \<Rightarrow> (string \<times> jval) list" where
  "domain_metrics env pbs =
     map (\<lambda>pb. (''$parameter.'' @ parameter_builder_name pb,
                 (case get_parameter env (parameter_builder_name pb) of
                    None \<Rightarrow> JNone | Some node \<Rightarrow> node))) pbs"

text \<open>
  Modelled from the spec: one domain of one rule (section 4.7): a fresh binding
  environment, the parameter builders, then the expectation configuration builders.
\<close>

definition evaluate_domain ::
  "'g backend \<Rightarrow> string list \<Rightarrow> rule \<Rightarrow> jval \<Rightarrow> 'g
     \<Rightarrow> profiler_error
        + ((jval \<times> (string \<times> jval) list) \<times> expectation_configuration list \<times> 'g)" where
  "evaluate_domain B batch_ids r domain g =
     (case run_parameter_builders B batch_ids (parameter_builders r)
             \<lparr> env_variables = JDict (rule_variables r), env_parameter = JDict [],
               env_domain = domain \<rparr> g of
        Inl e \<Rightarrow> Inl e
      | Inr (env1, g1) \<Rightarrow>
          (case run_expectation_builders B batch_ids
                  (expectation_configuration_builders r) env1 g1 of
             Inl e \<Rightarrow> Inl e
           | Inr (cs, g2) \<Rightarrow>
               Inr ((domain, domain_metrics env1 (parameter_builders r)), cs, g2)))"

text \<open>
  Modelled from the spec: the domains of a rule in order (section 4.7); a failure ends the
  rule.
\<close>

fun evaluate_domains ::
  "'g backend \<Rightarrow> string list \<Rightarrow> rule \<Rightarrow> jval list \<Rightarrow> 'g
     \<Rightarrow> profiler_error
        + ((jval \<times> (string \<times> jval) list) list \<times> expectation_configuration list \<times> 'g)" where
  "evaluate_domains B batch_ids r [] g = Inr ([], [], g)"
| "evaluate_domains B batch_ids r (d # ds) g =
     (case evaluate_domain B batch_ids r d g of
        Inl e \<Rightarrow> Inl e
      | Inr (m, cs, g1) \<Rightarrow>
          (case evaluate_domains B batch_ids r ds g1 of
             Inl e \<Rightarrow> Inl e
           | Inr (ms, cs', g2) \<Rightarrow> Inr (m # ms, cs @ cs', g2)))"

text \<open>
  Modelled from the spec: one rule (section 4.7): build its domains, evaluate each.
\<close>

definition evaluate_rule ::
  "'g backend \<Rightarrow> string list \<Rightarrow> string list \<Rightarrow> rule \<Rightarrow> 'g
     \<Rightarrow> profiler_error
        + ((jval \<times> (string \<times> jval) list) list \<times> expectation_configuration list \<times> 'g)" where
  "evaluate_rule B batch_ids columns r g =
     evaluate_domains B batch_ids r (build_domains B (rule_domain_builder r) columns) g"

text \<open>
  Modelled from the spec: the rules in declaration order (section 4.7). The emitted
  configurations are merged in encounter order. A failure is returned as the outcome of
  the run, never a partial result (section 7).
\<close>

fun run_rules ::
  "'g backend \<Rightarrow> string list \<Rightarrow> string list \<Rightarrow> rule list \<Rightarrow> 'g
     \<Rightarrow> profiler_error
        + ((jval \<times> (string \<times> jval) list) list \<times> expectation_configuration list \<times> 'g)" where
  "run_rules B batch_ids columns [] g = Inr ([], [], g)"
| "run_rules B batch_ids columns (r # rs) g =
     (case evaluate_rule B batch_ids columns r g of
        Inl e \<Rightarrow> Inl e
      | Inr (ms, cs, g1) \<Rightarrow>
          (case run_rules B batch_ids columns rs g1 of
             Inl e \<Rightarrow> Inl e
           | Inr (ms', cs', g2) \<Rightarrow> Inr (ms @ ms', cs @ cs', g2)))"

text \<open>
  Modelled from the spec: the citation entry that the test expects in the \<open>meta\<close> of the
  emitted suite: the date, the profiler configuration and a comment.
\<close>

record citation =
  citation_date :: string
  citation_profiler_config :: profiler_config
  citation_comment :: string

text \<open>
  Modelled from the spec: the emitted expectation suite: its name, its expectations and the
  citations of its \<open>meta\<close>.
\<close>

record profiled_suite =
  suite_name :: string
  suite_expectations :: "expectation_configuration list"
  suite_citations :: "citation list"

text \<open>
  Modelled from the spec: the result surface of section 6, with the emitted suite.
\<close>

record run_result =
  metrics_by_domain :: "(jval \<times> (string \<times> jval) list) list"
  expectation_configurations :: "expectation_configuration list"
  execution_time :: rat
  result_profiler_config :: profiler_config
  result_suite :: profiled_suite

text \<open>
  Modelled from the spec: the Rule / Profiler Orchestrator of section 4.7. The rules of the
  effective configuration are evaluated; that configuration is the \<open>profiler_config\<close> of
  the result (\<open>the resolved configuration actually executed\<close>, section 6) and the
  snapshot kept for the citation (section 4.7). The \<open>profiler_config\<close> that
  \<open>test_get_metrics_and_expectations\<close> expects (lines 2525-2650) differs from it: there
  \<open>bootstrap_random_seed\<close> is a variable of the profiler only.
\<close>

definition run ::
  "'g backend \<Rightarrow> profiler_config \<Rightarrow> string list \<Rightarrow> string list \<Rightarrow> string \<Rightarrow> 'g
     \<Rightarrow> profiler_error + (run_result \<times> 'g)" where
  "run B cfg batch_ids columns name g =
     (case run_rules B batch_ids columns (rules (effective_config cfg)) g of
        Inl e \<Rightarrow> Inl e
      | Inr (ms, cs, g') \<Rightarrow>
          Inr (\<lparr> metrics_by_domain = ms,
                 expectation_configurations = cs,
                 execution_time = elapsed B,
                 result_profiler_config = effective_config cfg,
                 result_suite =
                   \<lparr> suite_name = name, suite_expectations = cs,
                     suite_citations =
                       [\<lparr> citation_date = clock B,
                          citation_profiler_config = effective_config cfg,
                          citation_comment =
                            ''Suite created by Rule-Based Profiler with the configuration included.'' \<rparr>] \<rparr> \<rparr>,
               g'))"

section \<open>The fixture of \<open>test_get_metrics_and_expectations\<close>\<close>

text \<open>
  The identifiers of the 36 batches of the validator, in the order in which the test
  lists them under \<open>attributed_value\<close>, which is the order of the per-batch values.
\<close>

definition fixture_batch_ids :: "string list" where
  "fixture_batch_ids =
     [''0327cfb13205ec8512e1c28e438ab43b'',
      ''08085632aff9ce4cebbb8023049e1aec'',
      ''0808e185a52825d22356de2fe00a8f5f'',
      ''33d910f95326c0c7dfe7536d1cfeba51'',
      ''3692b23382fd4734215465251290c65b'',
      ''44c1b1947c9049e7db62c5320dde4c63'',
      ''47157bdaf05a7992473cd699cabaef74'',
      ''562969eaef9c843cb4531aecbc13bbcb'',
      ''569a4a80bf434c888593c651dbf2f157'',
      ''57c04d62ada3a102248b48f34c755159'',
      ''58ce3b40d384eacd9bad7d916eb8f705'',
      ''61e4931d87cb627df2a19b8bc5819b7b'',
      ''6c7e43619fe5e6963e8159cc84a28321'',
      ''73612fdabd337d5a8279acc30ce22d00'',
      ''7b3ce20a8e8cf3097bb9df270a7ae63a'',
      ''816b147dcf3305839f723a131b9ad6af'',
      ''84000630d1b69a0fe870c94fb26a32bc'',
      ''8ce0d477f610ea18e2ea4fbbb46de857'',
      ''90bb41c1fbd7c71c05dbc8695320af71'',
      ''940576153c66af14a949fd19aedd5f5b'',
      ''976b121b46db6967854b9c1a6628396b'',
      ''9e58d3c72c7006b6f5800b623fbc9818'',
      ''ab05b4fb82e37c8cf5b1ac40d0a37fe9'',
      ''ad2ad2a70c3e0bf94ddef3f893e92291'',
      ''b20800a7faafd2808d6c888577a2ba1d'',
      ''bb54e4fa3906387218be10cff631a7c2'',
      ''bb81456ec79522bf02f34b02762f95e0'',
      ''c4fe9afce1cf3e83eb8518a9f5abc754'',
      ''c92d0679f769ac83fef2bb5eaac5d12a'',
      ''ce5f02ac408b7b5c500050190f549736'',
      ''e20c38f98b9830a40b851939ca7189d4'',
      ''eff8910cddcdff62e4741243099240d5'',
      ''f2e4d3da6556638b55df8ce509b094c2'',
      ''f67d274202366f6b976414c950ca14bd'',
      ''f6c389dcef63c1f214c30f66b66945c0'',
      ''ff5a6cc031dd2c98b8bccd4766af38c1'']"

text \<open>
  The 18 columns of the table, in the order of the expected column domains.
\<close>

definition fixture_columns :: "string list" where
  "fixture_columns =
     [''vendor_id'', ''pickup_datetime'', ''dropoff_datetime'', ''passenger_count'',
      ''trip_distance'', ''rate_code_id'', ''store_and_fwd_flag'', ''pickup_location_id'',
      ''dropoff_location_id'', ''payment_type'', ''fare_amount'', ''extra'', ''mta_tax'',
      ''tip_amount'', ''tolls_amount'', ''improvement_surcharge'', ''total_amount'',
      ''congestion_surcharge'']"

text \<open>
  A \<open>NumericMetricRangeMultiBatchParameterBuilder\<close> entry as both rules of the expected
  profiler configuration carry it under \<open>validation_parameter_builder_configs\<close>: every
  setting of the estimator is a reference to a variable.
\<close>

definition range_builder_from_variables :: "string \<Rightarrow> string \<Rightarrow> jval \<Rightarrow> range_builder" where
  "range_builder_from_variables name metric domain_kwargs =
     \<lparr> pb_name = name, metric_name = metric, metric_domain_kwargs = domain_kwargs,
       metric_value_kwargs = JNone,
       false_positive_rate = JStr ''$variables.false_positive_rate'',
       estimator = JStr ''$variables.estimator'',
       num_bootstrap_samples = JStr ''$variables.num_bootstrap_samples'',
       bootstrap_random_seed = JStr ''$variables.bootstrap_random_seed'',
       truncate_values = JStr ''$variables.truncate_values'',
       round_decimals = JStr ''$variables.round_decimals'' \<rparr>"

text \<open>
  The variables that both rules declare for the estimator.
\<close>

definition estimator_variables :: "(string \<times> jval) list" where
  "estimator_variables =
     [(''false_positive_rate'', JNum (5 / 100)),
      (''estimator'', JStr ''bootstrap''),
      (''num_bootstrap_samples'', JNum 9999),
      (''truncate_values'', JDict [(''lower_bound'', JNum 0), (''upper_bound'', JNone)]),
      (''round_decimals'', JNum 0)]"

text \<open>
  The first rule of the expected profiler configuration. Its keyword arguments are in the
  order of the configuration.
\<close>

definition default_expect_table_row_count_to_be_between_rule :: rule where
  "default_expect_table_row_count_to_be_between_rule =
     \<lparr> rule_name = ''default_expect_table_row_count_to_be_between_rule'',
       rule_variables = estimator_variables,
       rule_domain_builder = TableDomainBuilder,
       parameter_builders =
         [MetricMultiBatchParameterBuilder
            \<lparr> pb_name = ''table_row_count'', metric_name = ''table.row_count'',
              metric_domain_kwargs = JStr ''$domain.domain_kwargs'',
              metric_value_kwargs = JNone \<rparr>],
       expectation_configuration_builders =
         [\<lparr> expectation_type = ''expect_table_row_count_to_be_between'',
            kwargs =
              [(''max_value'', JStr ''$parameter.row_count_range_estimator.value[1]''),
               (''min_value'', JStr ''$parameter.row_count_range_estimator.value[0]'')],
            meta =
              [(''profiler_details'', JStr ''$parameter.row_count_range_estimator.details'')],
            condition = None,
            validation_parameter_builders =
              [NumericMetricRangeMultiBatchParameterBuilder
                 (range_builder_from_variables ''row_count_range_estimator''
                    ''table.row_count'' JNone)] \<rparr>] \<rparr>"

text \<open>
  The column domain builder of the configuration sets no filter.
\<close>

definition no_column_filters :: column_filters where
  "no_column_filters =
     \<lparr> include_column_names = None, exclude_column_names = None,
       include_column_name_suffixes = None, exclude_column_name_suffixes = None,
       include_semantic_types = None, exclude_semantic_types = None \<rparr>"

text \<open>
  The second rule of the expected profiler configuration.
\<close>

definition default_expect_column_unique_values_to_be_between_rule :: rule where
  "default_expect_column_unique_values_to_be_between_rule =
     \<lparr> rule_name = ''default_expect_column_unique_values_to_be_between_rule'',
       rule_variables =
         [(''mostly'', JNum 1), (''strict_min'', JBool False), (''strict_max'', JBool False)]
         @ estimator_variables,
       rule_domain_builder = ColumnDomainBuilder no_column_filters,
       parameter_builders =
         [MetricMultiBatchParameterBuilder
            \<lparr> pb_name = ''column_distinct_values.count'',
              metric_name = ''column.distinct_values.count'',
              metric_domain_kwargs = JStr ''$domain.domain_kwargs'',
              metric_value_kwargs = JNone \<rparr>],
       expectation_configuration_builders =
         [\<lparr> expectation_type = ''expect_column_unique_value_count_to_be_between'',
            kwargs =
              [(''column'', JStr ''$domain.domain_kwargs.column''),
               (''max_value'',
                JStr ''$parameter.column_unique_values_range_estimator.value[1]''),
               (''strict_max'', JStr ''$variables.strict_max''),
               (''strict_min'', JStr ''$variables.strict_min''),
               (''min_value'',
                JStr ''$parameter.column_unique_values_range_estimator.value[0]'')],
            meta =
              [(''profiler_details'',
                JStr ''$parameter.column_unique_values_range_estimator.details'')],
            condition = None,
            validation_parameter_builders =
              [NumericMetricRangeMultiBatchParameterBuilder
                 (range_builder_from_variables ''column_unique_values_range_estimator''
                    ''column.distinct_values.count'' (JStr ''$domain.domain_kwargs''))] \<rparr>] \<rparr>"

text \<open>
  The profiler configuration of the \<open>VolumeDataAssistant\<close> as the test expects it in
  \<open>expected_rule_based_profiler_config\<close>: \<open>bootstrap_random_seed\<close> is a variable of the
  profiler, not of a rule. \<open>RANDOM_SEED\<close> is imported from a module that is not under
  \<open>src/\<close>, so the seed is a parameter.
\<close>

definition volume_data_assistant_config :: "int \<Rightarrow> profiler_config" where
  "volume_data_assistant_config random_seed =
     \<lparr> config_name = ''test_volume_data_assistant'',
       config_version = 1,
       variables = [(''bootstrap_random_seed'', JNum (of_int random_seed))],
       rules = [default_expect_table_row_count_to_be_between_rule,
                default_expect_column_unique_values_to_be_between_rule] \<rparr>"

text \<open>
  The expectation configuration that the test expects of the row-count rule.
\<close>

definition expected_expect_table_row_count_to_be_between_expectation_configuration ::
  expectation_configuration where
  "expected_expect_table_row_count_to_be_between_expectation_configuration =
     \<lparr> ec_expectation_type = ''expect_table_row_count_to_be_between'',
       ec_kwargs = [(''min_value'', JNum 10000), (''max_value'', JNum 10000)],
       ec_meta =
         [(''profiler_details'',
           JDict [(''metric_configuration'',
                   JDict [(''metric_name'', JStr ''table.row_count''),
                          (''domain_kwargs'', JDict []),
                          (''metric_value_kwargs'', JNone),
                          (''metric_dependencies'', JNone)]),
                  (''num_batches'', JNum 36)])] \<rparr>"

subsection \<open>Closed instances\<close>

text \<open>
  A collaborator for closed instances: it reports 10000 rows for every batch and 2
  distinct values for every column in every batch, its generator counts upwards, its
  statistic is the mean, its quantile the first element, and its clock shows the date at
  which the test freezes time.
\<close>

definition constant_backend :: "nat backend" where
  "constant_backend =
     \<lparr> compute_metric = (\<lambda>name dk vk ids.
          if name = ''table.row_count'' then Some (map (\<lambda>b. (b, 10000)) ids)
          else Some (map (\<lambda>b. (b, 2)) ids)),
       semantic_type = (\<lambda>c. ''''),
       seed_generator = nat,
       draw = (\<lambda>g. (g, Suc g)),
       statistic = (\<lambda>xs. sum_list xs / of_nat (length xs)),
       quantile = (\<lambda>xs q. hd xs),
       kde_interval = (\<lambda>xs q. (hd xs, hd xs)),
       clock = ''2019-09-26T13:42:41.000000Z'',
       elapsed = 1 \<rparr>"

section \<open>Notions used in the statements\<close>

text \<open>
  Two association lists denote the same mapping: Python compares dicts without regard to
  the order of their keys.
\<close>

definition same_dict :: "(string \<times> jval) list \<Rightarrow> (string \<times> jval) list \<Rightarrow> bool" where
  "same_dict a b = (distinct (map fst a) \<and> distinct (map fst b) \<and> set a = set b)"

text \<open>
  Two expectation configurations are equal as Python compares them.
\<close>

definition same_configuration ::
  "expectation_configuration \<Rightarrow> expectation_configuration \<Rightarrow> bool" where
  "same_configuration c d =
     (ec_expectation_type c = ec_expectation_type d
      \<and> same_dict (ec_kwargs c) (ec_kwargs d)
      \<and> same_dict (ec_meta c) (ec_meta d))"

text \<open>
  The collaborator answers a request for a metric with a value for every batch.
\<close>

definition reports :: "'g backend \<Rightarrow> string \<Rightarrow> jval \<Rightarrow> string list \<Rightarrow> bool" where
  "reports B metric dk ids =
     (case compute_metric B metric dk JNone ids of
        None \<Rightarrow> False
      | Some m \<Rightarrow> list_all (\<lambda>b. map_of m b \<noteq> None) ids)"

text \<open>
  The collaborator reports the distinct-value count of a column for the batches of the
  fixture.
\<close>

definition column_reports :: "'g backend \<Rightarrow> string \<Rightarrow> bool" where
  "column_reports B c =
     reports B ''column.distinct_values.count'' (JDict [(''column'', JStr c)]) fixture_batch_ids"

text \<open>
  The collaborator reports both metrics of the fixture: the row count of the table and
  the distinct-value count of every column.
\<close>

definition all_reported :: "'g backend \<Rightarrow> bool" where
  "all_reported B =
     (reports B ''table.row_count'' (JDict []) fixture_batch_ids \<and> list_all (column_reports B) fixture_columns)"

text \<open>
  The configuration that the row-count rule emits for given bounds and details.
\<close>

definition row_count_configuration :: "rat \<Rightarrow> rat \<Rightarrow> jval \<Rightarrow> expectation_configuration" where
  "row_count_configuration lo hi details =
     \<lparr> ec_expectation_type = ''expect_table_row_count_to_be_between'',
       ec_kwargs = [(''max_value'', JNum hi), (''min_value'', JNum lo)],
       ec_meta = [(''profiler_details'', details)] \<rparr>"

text \<open>
  The configuration that the column rule emits for a column, given bounds and details.
\<close>

definition column_configuration :: "string \<Rightarrow> rat \<Rightarrow> rat \<Rightarrow> jval \<Rightarrow> expectation_configuration" where
  "column_configuration c lo hi details =
     \<lparr> ec_expectation_type = ''expect_column_unique_value_count_to_be_between'',
       ec_kwargs = [(''column'', JStr c), (''max_value'', JNum hi),
                    (''strict_max'', JBool False), (''strict_min'', JBool False),
                    (''min_value'', JNum lo)],
       ec_meta = [(''profiler_details'', details)] \<rparr>"

text \<open>
  A rule of the fixture with the variables in effect for it.
\<close>

definition effective_rule :: "int \<Rightarrow> rule \<Rightarrow> rule" where
  "effective_rule random_seed r =
     r\<lparr>rule_variables :=
         rule_variables r @ [(''bootstrap_random_seed'', JNum (of_int random_seed))]\<rparr>"

section \<open>Properties of the sampler\<close>

lemma round_half_even_of_int: "round_half_even (of_int n) = n"
  by (simp add: round_half_even_def)

lemma floor_le_round_half_even: "\<lfloor>r\<rfloor> \<le> round_half_even r"
  by (simp add: round_half_even_def Let_def)

lemma bit_length_pos: "0 < n \<Longrightarrow> 0 < bit_length n"
  by (subst bit_length.simps) simp

lemma bit_length_bounds:
  "0 < n \<Longrightarrow> 2 ^ (bit_length n - 1) \<le> n \<and> n < 2 ^ bit_length n"
proof (induction n rule: bit_length.induct)
  case (1 n)
  have bl: "bit_length n = Suc (bit_length (n div 2))"
    using 1(2) by (subst bit_length.simps) simp
  show ?case
  proof (cases "n = 1")
    case True
    then show ?thesis by (simp add: bit_length.simps)
  next
    case False
    with 1(2) have h: "0 < n div 2" by simp
    with 1 have IH: "2 ^ (bit_length (n div 2) - 1) \<le> n div 2"
      "n div 2 < 2 ^ bit_length (n div 2)"
      by simp_all
    from h have "0 < bit_length (n div 2)" by (rule bit_length_pos)
    then obtain k where k: "bit_length (n div 2) = Suc k"
      by (cases "bit_length (n div 2)") auto
    from IH k have "2 ^ k \<le> n div 2" "n div 2 < 2 ^ Suc k" by simp_all
    then have "2 * 2 ^ k \<le> n" "n < 2 * 2 ^ Suc k" by linarith+
    then show ?thesis by (simp add: bl k)
  qed
qed

lemma floor_log2_of_int: "1 \<le> k \<Longrightarrow> floor_log2 (of_int k) = int (bit_length k) - 1"
  by (simp add: floor_log2_def)

lemma round_double_exact:
  assumes "\<bar>n\<bar> \<le> 2 ^ 53"
  shows "round_double (of_int n) = Some (of_int n)"
proof (cases "n = 0")
  case True
  then show ?thesis by (simp add: round_double_def)
next
  case False
  define k where "k = \<bar>n\<bar>"
  define b where "b = bit_length k - 1"
  from False have k1: "1 \<le> k" and k0: "0 < k" by (simp_all add: k_def)
  from bit_length_pos [OF k0] have bl: "int (bit_length k) - 1 = int b"
    by (simp add: b_def)
  from bit_length_bounds [OF k0] have lo: "2 ^ b \<le> k" by (simp add: b_def)
  with assms have "(2::int) ^ b \<le> 2 ^ 53" by (simp add: k_def)
  then have b53: "b \<le> 53" by (rule power_le_imp_le_exp [rotated]) simp
  have fl: "floor_log2 (of_int k) = int b"
    using floor_log2_of_int [OF k1] bl by simp
  have u: "max (floor_log2 (of_int k) - 52) (- 1074) = int b - 52"
    by (simp add: fl)
  have r: "of_int (round_half_even (of_int k / pow2 (int b - 52))) * pow2 (int b - 52)
           = (of_int k :: rat)"
  proof (cases "b \<le> 52")
    case True
    then have p: "pow2 (int b - 52) = 1 / 2 ^ (52 - b)"
      by (auto simp: pow2_def nat_diff_distrib' intro: arg_cong [where f = "\<lambda>j. 1 / 2 ^ j"])
    have "(of_int k :: rat) / pow2 (int b - 52) = of_int (k * 2 ^ (52 - b))"
      by (simp add: p)
    then have "round_half_even (of_int k / pow2 (int b - 52)) = k * 2 ^ (52 - b)"
      by (simp only: round_half_even_of_int)
    then show ?thesis
      by (simp add: p)
  next
    case False
    with b53 have b: "b = 53" by simp
    with lo assms have k: "k = 2 ^ 53" by (simp add: k_def)
    have "(of_int k :: rat) / pow2 (int b - 52) = of_int (2 ^ 52)"
      by (simp add: k b pow2_def)
    then have "round_half_even (of_int k / pow2 (int b - 52)) = 2 ^ 52"
      by (simp only: round_half_even_of_int)
    then show ?thesis
      by (simp add: k b pow2_def)
  qed
  have nov: "\<not> pow2 1024 \<le> (of_int k :: rat)"
  proof -
    from assms have "(of_int k :: rat) \<le> of_int (2 ^ 53)"
      unfolding k_def by (rule iffD2 [OF of_int_le_iff])
    then show ?thesis by (simp add: pow2_def)
  qed
  have a: "\<bar>of_int n :: rat\<bar> = of_int k" by (simp add: k_def)
  have s: "sgn (of_int n :: rat) * of_int k = of_int n"
    by (simp add: k_def sgn_if)
  show ?thesis
    using False by (simp add: round_double_def a u r nov s Let_def)
qed

lemma round_double_overflow:
  assumes "2 ^ 1024 \<le> \<bar>n\<bar>"
  shows "round_double (of_int n) = None"
proof -
  define k where "k = \<bar>n\<bar>"
  define b where "b = bit_length k - 1"
  have "(0::int) < 2 ^ 1024" by (rule zero_less_power) simp
  from this assms have k0: "0 < k" unfolding k_def by (rule less_le_trans)
  then have k1: "1 \<le> k" and n0: "n \<noteq> 0" by (auto simp: k_def)
  from bit_length_bounds [OF k0] have lo: "2 ^ b \<le> k" and hi': "k < 2 ^ bit_length k"
    by (simp_all add: b_def)
  from bit_length_pos [OF k0] have bl: "bit_length k = Suc b"
    by (simp add: b_def)
  from hi' have hi: "k < 2 ^ Suc b" by (simp only: bl)
  from assms have "2 ^ 1024 \<le> k" by (simp only: k_def)
  from this hi have "(2::int) ^ 1024 < 2 ^ Suc b" by (rule le_less_trans)
  then have "1024 < Suc b" by (rule power_less_imp_less_exp [rotated]) simp
  then have b1024: "1024 \<le> b" by simp
  have fl: "floor_log2 (of_int k) = int b"
    using floor_log2_of_int [OF k1] by (simp add: bl)
  have u: "max (floor_log2 (of_int k) - 52) (- 1074) = int (b - 52)"
    using b1024 by (simp add: fl)
  have p: "pow2 (int (b - 52)) = 2 ^ (b - 52)" by (simp add: pow2_def)
  have split: "(2::rat) ^ 52 * 2 ^ (b - 52) = 2 ^ b"
    using b1024 by (simp only: flip: power_add) simp
  from lo have "(of_int (2 ^ b) :: rat) \<le> of_int k" by (simp only: of_int_le_iff)
  then have "(2::rat) ^ b \<le> of_int k" by (simp only: of_int_power of_int_numeral)
  with split have "(2::rat) ^ 52 * 2 ^ (b - 52) \<le> of_int k" by (simp only:)
  then have "(2::rat) ^ 52 \<le> of_int k / 2 ^ (b - 52)"
    by (simp only: pos_le_divide_eq zero_less_power zero_less_numeral)
  then have "(of_int (2 ^ 52) :: rat) \<le> of_int k / 2 ^ (b - 52)"
    by (simp only: of_int_power of_int_numeral)
  then have "2 ^ 52 \<le> \<lfloor>(of_int k :: rat) / 2 ^ (b - 52)\<rfloor>"
    by (simp only: le_floor_iff)
  with floor_le_round_half_even [of "of_int k / 2 ^ (b - 52)"]
  have "2 ^ 52 \<le> round_half_even (of_int k / 2 ^ (b - 52))" by (rule order_trans [rotated])
  then have "(of_int (2 ^ 52) :: rat) \<le> of_int (round_half_even (of_int k / 2 ^ (b - 52)))"
    by (simp only: of_int_le_iff)
  then have "(2::rat) ^ 52 \<le> of_int (round_half_even (of_int k / 2 ^ (b - 52)))"
    by (simp only: of_int_power of_int_numeral)
  then have "(2::rat) ^ 52 * 2 ^ (b - 52)
             \<le> of_int (round_half_even (of_int k / 2 ^ (b - 52))) * 2 ^ (b - 52)"
    by (rule mult_right_mono) simp
  then have "(2::rat) ^ b
             \<le> of_int (round_half_even (of_int k / 2 ^ (b - 52))) * 2 ^ (b - 52)"
    by (simp only: split)
  moreover have "(2::rat) ^ 1024 \<le> 2 ^ b" using b1024 by (rule power_increasing) simp
  ultimately have "(2::rat) ^ 1024
             \<le> of_int (round_half_even (of_int k / 2 ^ (b - 52))) * 2 ^ (b - 52)"
    by (rule order_trans [rotated])
  moreover have "pow2 1024 = 2 ^ 1024" by (simp add: pow2_def)
  ultimately have ov: "pow2 1024
      \<le> of_int (round_half_even (of_int k / pow2 (int (b - 52)))) * pow2 (int (b - 52))"
    by (simp only: p)
  have a: "\<bar>of_int n :: rat\<bar> = of_int k" by (simp add: k_def)
  show ?thesis
    using n0 ov by (simp only: round_double_def a u Let_def) simp
qed

lemma round_double_above_2_53: "round_double 9007199254740993 = Some 9007199254740992"
  by code_simp

lemma py_mul_one_exact:
  assumes "\<bar>n\<bar> \<le> 2 ^ 53"
  shows "py_mul_int (PyFloat 1) n = Inr (PyFloat (of_int n))"
  using round_double_exact [OF assms] by (simp add: float_of_int_def float_result_def)

lemma py_mul_one_overflow:
  assumes "2 ^ 1024 \<le> \<bar>n\<bar>"
  shows "py_mul_int (PyFloat 1) n = Inl OverflowError"
  using round_double_overflow [OF assms] by (simp add: float_of_int_def)

lemma sample_using_random_falsy:
  assumes "map_of batch_spec ''table_name'' = Some t"
    and "map_of batch_spec ''sampling_kwargs'' = Some (PyDict kw)"
    and "map_of kw ''p'' = Some p"
    and "\<not> py_truthy p"
  shows "sample_using_random count_rows batch_spec w =
        (case py_mul_int (PyFloat 1) (count_rows t (dict_get batch_spec ''schema_name'') w) of
           Inl e \<Rightarrow> Inl e
         | Inr scaled \<Rightarrow>
            (case py_round scaled of
               Inl e \<Rightarrow> Inl e
             | Inr sample_size \<Rightarrow>
                 Inr \<lparr> sel_table = t, sel_schema = dict_get batch_spec ''schema_name'',
                       sel_where = w, sel_order_by_random = True,
                       sel_limit = sample_size \<rparr>))"
  using assms by (simp add: sample_using_random_def py_or_def Let_def del: py_mul_int.simps)

text \<open>
  C9. \<open>_validate_mssql_limit_param\<close> raises \<open>InvalidConfigError\<close> exactly when \<open>n\<close> is
  neither an int nor a str, or is a str that \<open>isdigit()\<close> rejects; otherwise it returns
  \<open>None\<close>. In particular every int (negative ones too) and every digit-only string is
  accepted, and \<open>"-1"\<close>, \<open>""\<close> and \<open>"3.5"\<close> are rejected.
\<close>

theorem validate_mssql_limit_param_raises_iff:
  "((\<exists>msg. validate_mssql_limit_param n = Inl (InvalidConfigError msg)) \<longleftrightarrow>
      (\<not> isinstance_int n \<and> \<not> isinstance_str n) \<or> (\<exists>s. n = PyStr s \<and> \<not> str_isdigit s))
   \<and> ((\<forall>msg. validate_mssql_limit_param n \<noteq> Inl (InvalidConfigError msg)) \<longrightarrow>
          validate_mssql_limit_param n = Inr ())
   \<and> validate_mssql_limit_param (PyInt i) = Inr ()
   \<and> (str_isdigit s \<longrightarrow> validate_mssql_limit_param (PyStr s) = Inr ())
   \<and> (\<exists>msg. validate_mssql_limit_param (PyStr ''-1'') = Inl (InvalidConfigError msg))
   \<and> (\<exists>msg. validate_mssql_limit_param (PyStr '''') = Inl (InvalidConfigError msg))
   \<and> (\<exists>msg. validate_mssql_limit_param (PyStr ''3.5'') = Inl (InvalidConfigError msg))"
  by (cases n) (simp_all add: validate_mssql_limit_param_def str_isdigit_def char_isdigit_def)

theorem validate_mssql_limit_param_raises_iff_witness:
  "str_isdigit ''250''
   \<and> validate_mssql_limit_param (PyStr ''250'') = Inr ()
   \<and> validate_mssql_limit_param (PyInt (- 7)) = Inr ()
   \<and> (\<exists>msg. validate_mssql_limit_param (PyFloat (7 / 2)) = Inl (InvalidConfigError msg))"
proof -
  have d: "str_isdigit ''250''"
    by (simp add: str_isdigit_def char_isdigit_def)
  have "\<not> isinstance_int (PyFloat (7 / 2)) \<and> \<not> isinstance_str (PyFloat (7 / 2))"
    by simp
  with d show ?thesis
    using validate_mssql_limit_param_raises_iff [of "PyFloat (7 / 2)" "- 7" "''250''"]
    by blast
qed

text \<open>
  C10 as stated fails. The product \<open>1.0 * num_rows\<close> is a double, and a row count above
  \<open>2 ^ 53\<close> need not be one: for \<open>2 ^ 53 + 1\<close> rows and \<open>p = 0.0\<close> the \<open>LIMIT\<close> is
  \<open>2 ^ 53\<close>, one row short of the filtered row count.
\<close>

theorem sample_using_random_limit_rounds_row_count:
  "sample_using_random (\<lambda>t s w. 9007199254740993)
     [(''table_name'', PyStr ''taxi''),
      (''sampling_kwargs'', PyDict [(''p'', PyFloat 0)])] (None :: unit option)
   = Inr \<lparr> sel_table = PyStr ''taxi'', sel_schema = PyNone, sel_where = None,
           sel_order_by_random = True, sel_limit = 9007199254740992 \<rparr>
   \<and> (9007199254740993 :: int) = 2 ^ 53 + 1"
proof -
  have b: "round_double 9007199254740992 = Some 9007199254740992"
    using round_double_exact [of 9007199254740992] by simp
  have c: "round_half_even 9007199254740992 = 9007199254740992"
    using round_half_even_of_int [of 9007199254740992] by simp
  show ?thesis
    by (simp add: sample_using_random_def py_or_def dict_get_def float_of_int_def
        float_result_def round_double_above_2_53 b c)
qed

text \<open>
  C10, amended. In \<open>sample_using_random\<close> a falsy sampling fraction \<open>p\<close> (\<open>0.0\<close>, \<open>None\<close>,
  and every other value whose truth value is false) is replaced by \<open>1.0\<close>, so the outcome
  is that of \<open>round(1.0 * num_rows)\<close> in double arithmetic. When \<open>num_rows\<close> is at most
  \<open>2 ^ 53\<close> the query is returned and its \<open>LIMIT\<close> is \<open>num_rows\<close>, the count of the rows
  that pass the where clause: a 0% sample of such a table yields all rows, not zero rows.
  From \<open>2 ^ 1024\<close> rows on the conversion of \<open>num_rows\<close> to a float raises
  \<open>OverflowError\<close>.
\<close>

theorem sample_using_random_falsy_p_limit:
  assumes "map_of batch_spec ''table_name'' = Some t"
    and "map_of batch_spec ''sampling_kwargs'' = Some (PyDict kw)"
    and "map_of kw ''p'' = Some p"
    and "\<not> py_truthy p"
    and "count_rows t (dict_get batch_spec ''schema_name'') w = num_rows"
  shows "py_or p (PyFloat 1) = PyFloat 1
    \<and> sample_using_random count_rows batch_spec w =
        (case py_mul_int (PyFloat 1) num_rows of
           Inl e \<Rightarrow> Inl e
         | Inr scaled \<Rightarrow>
            (case py_round scaled of
               Inl e \<Rightarrow> Inl e
             | Inr sample_size \<Rightarrow>
                 Inr \<lparr> sel_table = t, sel_schema = dict_get batch_spec ''schema_name'',
                       sel_where = w, sel_order_by_random = True,
                       sel_limit = sample_size \<rparr>))
    \<and> (\<bar>num_rows\<bar> \<le> 2 ^ 53 \<longrightarrow>
         sample_using_random count_rows batch_spec w =
           Inr \<lparr> sel_table = t, sel_schema = dict_get batch_spec ''schema_name'',
                 sel_where = w, sel_order_by_random = True, sel_limit = num_rows \<rparr>)
    \<and> (2 ^ 1024 \<le> \<bar>num_rows\<bar> \<longrightarrow>
         sample_using_random count_rows batch_spec w = Inl OverflowError)"
proof (intro conjI impI)
  show "py_or p (PyFloat 1) = PyFloat 1"
    using assms(4) by (simp add: py_or_def)
  note run = sample_using_random_falsy [OF assms(1-4), of count_rows w, unfolded assms(5)]
  show "sample_using_random count_rows batch_spec w =
        (case py_mul_int (PyFloat 1) num_rows of
           Inl e \<Rightarrow> Inl e
         | Inr scaled \<Rightarrow>
            (case py_round scaled of
               Inl e \<Rightarrow> Inl e
             | Inr sample_size \<Rightarrow>
                 Inr \<lparr> sel_table = t, sel_schema = dict_get batch_spec ''schema_name'',
                       sel_where = w, sel_order_by_random = True,
                       sel_limit = sample_size \<rparr>))"
    by (rule run)
  show "sample_using_random count_rows batch_spec w =
           Inr \<lparr> sel_table = t, sel_schema = dict_get batch_spec ''schema_name'',
                 sel_where = w, sel_order_by_random = True, sel_limit = num_rows \<rparr>"
    if "\<bar>num_rows\<bar> \<le> 2 ^ 53"
    unfolding run py_mul_one_exact [OF that] by (simp add: round_half_even_of_int)
  show "sample_using_random count_rows batch_spec w = Inl OverflowError"
    if "2 ^ 1024 \<le> \<bar>num_rows\<bar>"
    unfolding run py_mul_one_overflow [OF that] by simp
qed

theorem sample_using_random_falsy_p_limit_witness:
  "sample_using_random (\<lambda>t s w. 1000)
     [(''table_name'', PyStr ''taxi''),
      (''sampling_kwargs'', PyDict [(''p'', PyFloat 0)])] (None :: unit option)
   = Inr \<lparr> sel_table = PyStr ''taxi'', sel_schema = PyNone, sel_where = None,
           sel_order_by_random = True, sel_limit = 1000 \<rparr>
   \<and> sample_using_random (\<lambda>t s w. 1000)
     [(''table_name'', PyStr ''taxi''),
      (''sampling_kwargs'', PyDict [(''p'', PyNone)])] (None :: unit option)
   = Inr \<lparr> sel_table = PyStr ''taxi'', sel_schema = PyNone, sel_where = None,
           sel_order_by_random = True, sel_limit = 1000 \<rparr>
   \<and> sample_using_random (\<lambda>t s w. 2 ^ 1024)
     [(''table_name'', PyStr ''taxi''),
      (''sampling_kwargs'', PyDict [(''p'', PyFloat 0)])] (None :: unit option)
   = Inl OverflowError"
proof -
  let ?zero = "[(''table_name'', PyStr ''taxi''),
                (''sampling_kwargs'', PyDict [(''p'', PyFloat 0)])]"
  let ?none = "[(''table_name'', PyStr ''taxi''),
                (''sampling_kwargs'', PyDict [(''p'', PyNone)])]"
  have t: "map_of ?zero ''table_name'' = Some (PyStr ''taxi'')"
      "map_of ?none ''table_name'' = Some (PyStr ''taxi'')"
    and k: "map_of ?zero ''sampling_kwargs'' = Some (PyDict [(''p'', PyFloat 0)])"
      "map_of ?none ''sampling_kwargs'' = Some (PyDict [(''p'', PyNone)])"
    and p: "map_of [(''p'', PyFloat 0)] ''p'' = Some (PyFloat 0)"
      "map_of [(''p'', PyNone)] ''p'' = Some PyNone"
    and f: "\<not> py_truthy (PyFloat 0)" "\<not> py_truthy PyNone"
    and s: "dict_get ?zero ''schema_name'' = PyNone" "dict_get ?none ''schema_name'' = PyNone"
    by (simp_all add: dict_get_def)
  have small: "\<bar>1000 :: int\<bar> \<le> 2 ^ 53" and large: "(2 :: int) ^ 1024 \<le> \<bar>2 ^ 1024\<bar>"
    by simp_all
  from sample_using_random_falsy_p_limit
    [of ?zero _ _ _ "\<lambda>t s w. 1000" None 1000, OF t(1) k(1) p(1) f(1) refl] small
  have "sample_using_random (\<lambda>t s w. 1000) ?zero (None :: unit option)
        = Inr \<lparr> sel_table = PyStr ''taxi'', sel_schema = PyNone, sel_where = None,
                sel_order_by_random = True, sel_limit = 1000 \<rparr>"
    unfolding s by blast
  moreover from sample_using_random_falsy_p_limit
    [of ?none _ _ _ "\<lambda>t s w. 1000" None 1000, OF t(2) k(2) p(2) f(2) refl] small
  have "sample_using_random (\<lambda>t s w. 1000) ?none (None :: unit option)
        = Inr \<lparr> sel_table = PyStr ''taxi'', sel_schema = PyNone, sel_where = None,
                sel_order_by_random = True, sel_limit = 1000 \<rparr>"
    unfolding s by blast
  moreover from sample_using_random_falsy_p_limit
    [of ?zero _ _ _ "\<lambda>t s w. 2 ^ 1024" None "2 ^ 1024", OF t(1) k(1) p(1) f(1) refl] large
  have "sample_using_random (\<lambda>t s w. 2 ^ 1024) ?zero (None :: unit option)
        = Inl OverflowError"
    by blast
  ultimately show ?thesis by blast
qed

section \<open>Properties of the test helper\<close>

text \<open>
  C8. When \<open>get_validator_with_expectation_suite\<close> is given both an \<open>expectation_suite\<close>
  object and an \<open>expectation_suite_name\<close>, and the suite's name is not the given name, it
  raises the \<open>ValueError\<close> that reports mutually inconsistent arguments: no validator is
  returned for either of the two names, whatever the other arguments are.
\<close>

theorem get_validator_mismatched_names_raise:
  assumes "expectation_suite_name s \<noteq> n"
  shows \<open>get_validator_with_expectation_suite materialize uuid4 batch_request ctx
          (Some s) (Some n) component_name =
        Inl (ValueError
          ''Mutually inconsistent "expectation_suite" and "expectation_suite_name" were specified.'')\<close>
  using assms
  by (simp add: get_validator_with_expectation_suite_def suite_flags_def)

theorem get_validator_mismatched_names_raise_witness:
  \<open>get_validator_with_expectation_suite (\<lambda>r :: unit. r) ''0f8fad5b-d9cb-469f-a165-70867728950e'' ()
      \<lparr>stored_suites = [''my_suite'']\<rparr>
      (Some \<lparr>expectation_suite_name = ''my_suite'', expectations = []\<rparr>)
      (Some ''other_suite'') (Some ''volume_data_assistant'') =
    Inl (ValueError
      ''Mutually inconsistent "expectation_suite" and "expectation_suite_name" were specified.'')\<close>
  by (rule get_validator_mismatched_names_raise) simp

section \<open>Properties of the rule evaluation engine\<close>

subsection \<open>Reference Resolver\<close>

lemmas resolver_defs =
  resolve_reference_def parse_reference_def parse_segment_def parse_nat_def digit_value_def
  namespace_root_def

lemma resolve_concrete:
  "concrete v \<Longrightarrow> resolve env v = Inr v"
  "concrete_list xs \<Longrightarrow> resolve_list env xs = Inr xs"
  "concrete_dict kvs \<Longrightarrow> resolve_dict env kvs = Inr kvs"
  by (induction env v and env xs and env kvs rule: resolve_resolve_list_resolve_dict.induct)
    auto

lemma resolve_indexed_parameter:
  "resolve \<lparr> env_variables = JDict [],
             env_parameter = JDict [(''x'', JDict [(''value'', JList [JNum 5, JNum 9])])],
             env_domain = JNone \<rparr> (JStr ''$parameter.x.value[0]'') = Inr (JNum 5)"
  by (simp add: resolver_defs)

subsection \<open>Metric Aggregator and Numeric Range Estimator\<close>

lemma aggregate_constant:
  assumes "compute_metric B name dk vk ids = Some m"
    and "list_all (\<lambda>b. map_of m b = Some v) ids"
  shows "aggregate B name d dk vk ids = Inr (replicate (length ids) v, map (\<lambda>b. (b, v)) ids)"
proof -
  from assms(2) have a: "list_all (\<lambda>b. map_of m b \<noteq> None) ids"
    by (induction ids) auto
  from assms(2) have b: "map (\<lambda>b. the (map_of m b)) ids = replicate (length ids) v"
    by (induction ids) auto
  from assms(2) have c: "map (\<lambda>b. (b, the (map_of m b))) ids = map (\<lambda>b. (b, v)) ids"
    by (induction ids) auto
  show ?thesis using assms(1) a b c by (simp add: aggregate_def)
qed

lemma aggregate_Inr_iff:
  "(\<exists>r. aggregate B metric d dk JNone ids = Inr r) \<longleftrightarrow> reports B metric dk ids"
  by (auto simp: aggregate_def reports_def split: option.splits)

lemma aggregate_length:
  "aggregate B metric d dk vk ids = Inr (vals, attributed) \<Longrightarrow> length vals = length ids"
  by (auto simp: aggregate_def split: option.splits if_splits)

lemma map_of_constant: "b \<in> set ids \<Longrightarrow> map_of (map (\<lambda>b. (b, v)) ids) b = Some v"
  by (induction ids) auto

lemma list_all_constant: "list_all (\<lambda>b. map_of (map (\<lambda>b. (b, v)) ids) b = Some v) ids"
  by (simp add: list_all_iff map_of_constant)

lemma degenerate_replicate: "0 < k \<Longrightarrow> degenerate (replicate k v)"
  by (cases k) (simp_all add: list_all_iff)

lemma estimate_degenerate:
  assumes "0 \<le> fpr" "fpr < 1" "0 < num_samples" "0 < k"
  shows "estimate B (replicate k v) fpr est num_samples seed trunc rd g = Inr ((v, v), g)"
proof -
  from assms(4) obtain j where k: "k = Suc j" by (cases k) auto
  have "degenerate (replicate k v)" using assms(4) by (rule degenerate_replicate)
  then show ?thesis using assms(1-3) k by (simp add: estimate_def)
qed

lemma estimate_total:
  assumes "0 \<le> fpr" "fpr < 1" "0 < num_samples" "vals \<noteq> []"
  shows "\<exists>b g'. estimate B vals fpr est num_samples seed trunc rd g = Inr (b, g')"
  using assms by (cases "raw_interval B vals fpr est (nat num_samples) seed g")
    (auto simp: estimate_def)

subsection \<open>Parameter builders\<close>

lemma map_of_dict_set: "map_of (dict_set k v kvs) k = Some v"
  by (induction kvs) auto

lemma map_of_dict_set_other: "k' \<noteq> k \<Longrightarrow> map_of (dict_set k v kvs) k' = map_of kvs k'"
  by (induction kvs) auto

lemma default_settings:
  assumes "env_variables env = JDict vs"
    and "map_of vs ''false_positive_rate'' = Some (JNum (5 / 100))"
    and "map_of vs ''estimator'' = Some (JStr ''bootstrap'')"
    and "map_of vs ''num_bootstrap_samples'' = Some (JNum 9999)"
    and "map_of vs ''bootstrap_random_seed'' = Some (JNum (of_int random_seed))"
    and "map_of vs ''truncate_values''
           = Some (JDict [(''lower_bound'', JNum 0), (''upper_bound'', JNone)])"
    and "map_of vs ''round_decimals'' = Some (JNum 0)"
  shows "resolve_settings env (range_builder_from_variables name metric dk)
         = Inr \<lparr> set_false_positive_rate = 5 / 100, set_estimator = Bootstrap,
                 set_num_samples = 9999, set_random_seed = Some random_seed,
                 set_truncate = \<lparr>lower_bound = Some 0, upper_bound = None\<rparr>,
                 set_round_decimals = Some 0 \<rparr>"
  using assms
  by (simp add: resolve_settings_def resolve_setting_def range_builder_from_variables_def
      resolver_defs as_rat_def as_int_def as_optional_int_def as_estimator_def
      as_truncation_def as_limit_def)

subsection \<open>The rules of the fixture\<close>

lemma length_fixture_batch_ids: "length fixture_batch_ids = 36"
  by (simp add: fixture_batch_ids_def)

lemma length_fixture_columns: "length fixture_columns = 18"
  by (simp add: fixture_columns_def)

lemma effective_rules:
  "rules (effective_config (volume_data_assistant_config random_seed)) =
     [effective_rule random_seed default_expect_table_row_count_to_be_between_rule,
      effective_rule random_seed default_expect_column_unique_values_to_be_between_rule]"
  by (simp add: effective_config_def volume_data_assistant_config_def effective_rule_def
      effective_variables_def default_expect_table_row_count_to_be_between_rule_def
      default_expect_column_unique_values_to_be_between_rule_def estimator_variables_def)

lemma row_count_rule_builder:
  "rule_domain_builder
     (effective_rule random_seed default_expect_table_row_count_to_be_between_rule)
   = TableDomainBuilder"
  by (simp add: effective_rule_def default_expect_table_row_count_to_be_between_rule_def)

lemma column_rule_builder:
  "rule_domain_builder
     (effective_rule random_seed default_expect_column_unique_values_to_be_between_rule)
   = ColumnDomainBuilder no_column_filters"
  by (simp add: effective_rule_def default_expect_column_unique_values_to_be_between_rule_def)

lemma column_survives_unfiltered: "column_survives B no_column_filters c"
  by (simp add: column_survives_def no_column_filters_def included_def excluded_def)

lemma build_domains_unfiltered:
  "build_domains B (ColumnDomainBuilder no_column_filters) cols = map column_domain cols"
  by (simp add: column_survives_unfiltered)

lemma estimate_default_total:
  assumes "aggregate B metric d dk vk fixture_batch_ids = Inr (vals, attributed)"
  shows "\<exists>lo hi g'. estimate B vals (5 / 100) Bootstrap 9999 (Some random_seed)
           \<lparr>lower_bound = Some 0, upper_bound = None\<rparr> (Some 0) g = Inr ((lo, hi), g')"
proof -
  from aggregate_length [OF assms] have "vals \<noteq> []" by (auto simp: length_fixture_batch_ids)
  then show ?thesis
    using estimate_total [of "5 / 100" 9999 vals B Bootstrap "Some random_seed"
        "\<lparr>lower_bound = Some 0, upper_bound = None\<rparr>" "Some 0" g]
    by auto
qed

lemma row_count_rule_domain:
  assumes agg: "aggregate B ''table.row_count'' table_domain (JDict []) JNone fixture_batch_ids
                = Inr (vals, attributed)"
    and est: "estimate B vals (5 / 100) Bootstrap 9999 (Some random_seed)
                \<lparr>lower_bound = Some 0, upper_bound = None\<rparr> (Some 0) g = Inr ((lo, hi), g')"
  shows "\<exists>m. evaluate_domain B fixture_batch_ids
            (effective_rule random_seed default_expect_table_row_count_to_be_between_rule)
            table_domain g
          = Inr (m, [row_count_configuration lo hi
                       (metric_details ''table.row_count'' (JDict []) JNone 36)], g')"
proof -
  let ?dk = "JDict []"
  let ?vars = "rule_variables default_expect_table_row_count_to_be_between_rule
               @ [(''bootstrap_random_seed'', JNum (of_int random_seed))]"
  let ?r = "effective_rule random_seed default_expect_table_row_count_to_be_between_rule"
  let ?env0 = "\<lparr>env_variables = JDict ?vars, env_parameter = JDict [],
                env_domain = table_domain\<rparr>"
  let ?node1 = "JDict [(''value'', JList (map JNum vals)),
                       (''attributed_value'',
                        JDict (map (\<lambda>(b, v). (b, JList [JNum v])) attributed)),
                       (''details'', metric_details ''table.row_count'' ?dk JNone 36)]"
  let ?env1 = "?env0\<lparr>env_parameter := JDict [(''table_row_count'', ?node1)]\<rparr>"
  have s1: "build_metric_parameter B fixture_batch_ids
              \<lparr> pb_name = ''table_row_count'', metric_name = ''table.row_count'',
                metric_domain_kwargs = JStr ''$domain.domain_kwargs'',
                metric_value_kwargs = JNone \<rparr> ?env0 = Inr ?env1"
    by (simp add: build_metric_parameter_def fetch_series_def resolve_domain_kwargs_def
        resolver_defs table_domain_def agg [unfolded table_domain_def] put_parameter_def
        length_fixture_batch_ids)
  have st: "resolve_settings ?env1
              (range_builder_from_variables ''row_count_range_estimator''
                 ''table.row_count'' JNone)
            = Inr \<lparr> set_false_positive_rate = 5 / 100, set_estimator = Bootstrap,
                    set_num_samples = 9999, set_random_seed = Some random_seed,
                    set_truncate = \<lparr>lower_bound = Some 0, upper_bound = None\<rparr>,
                    set_round_decimals = Some 0 \<rparr>"
    by (rule default_settings [where vs = ?vars])
       (simp_all add: default_expect_table_row_count_to_be_between_rule_def
          estimator_variables_def)
  let ?node2 = "JDict [(''value'', JList [JNum lo, JNum hi]),
                       (''details'', metric_details ''table.row_count'' ?dk JNone 36)]"
  let ?env2 = "?env0\<lparr>env_parameter :=
                 JDict [(''table_row_count'', ?node1),
                        (''row_count_range_estimator'', ?node2)]\<rparr>"
  have s2: "build_range_parameter B fixture_batch_ids
              (range_builder_from_variables ''row_count_range_estimator''
                 ''table.row_count'' JNone)
              ?env1 g = Inr (?env2, g')"
    unfolding build_range_parameter_def st
    using est
    by (simp add: fetch_series_def resolve_domain_kwargs_def domain_kwargs_of_def
        range_builder_from_variables_def table_domain_def agg [unfolded table_domain_def]
        resolver_defs put_parameter_def length_fixture_batch_ids)
  have pbs: "parameter_builders ?r =
      [MetricMultiBatchParameterBuilder
         \<lparr> pb_name = ''table_row_count'', metric_name = ''table.row_count'',
           metric_domain_kwargs = JStr ''$domain.domain_kwargs'',
           metric_value_kwargs = JNone \<rparr>]"
    by (simp add: default_expect_table_row_count_to_be_between_rule_def effective_rule_def)
  obtain b where ecbs: "expectation_configuration_builders ?r = [b]"
    and vb: "validation_parameter_builders b =
      [NumericMetricRangeMultiBatchParameterBuilder
         (range_builder_from_variables ''row_count_range_estimator''
            ''table.row_count'' JNone)]"
    and b: "b = hd (expectation_configuration_builders
                      default_expect_table_row_count_to_be_between_rule)"
    by (simp add: default_expect_table_row_count_to_be_between_rule_def effective_rule_def)
  have s3: "emit_expectation_configuration ?env2 b
            = Inr (Some (row_count_configuration lo hi
                           (metric_details ''table.row_count'' ?dk JNone 36)))"
    unfolding b
    by (simp add: emit_expectation_configuration_def condition_holds_def
        default_expect_table_row_count_to_be_between_rule_def resolver_defs
        row_count_configuration_def)
  have vars: "rule_variables ?r = ?vars" by (simp add: effective_rule_def)
  show ?thesis
    unfolding evaluate_domain_def pbs ecbs vars
    using s1 s2 s3 vb by auto
qed

lemma column_rule_domain:
  assumes agg: "aggregate B ''column.distinct_values.count'' (column_domain c)
                  (JDict [(''column'', JStr c)]) JNone fixture_batch_ids = Inr (vals, attributed)"
    and est: "estimate B vals (5 / 100) Bootstrap 9999 (Some random_seed)
                \<lparr>lower_bound = Some 0, upper_bound = None\<rparr> (Some 0) g = Inr ((lo, hi), g')"
  shows "\<exists>m. evaluate_domain B fixture_batch_ids
            (effective_rule random_seed default_expect_column_unique_values_to_be_between_rule)
            (column_domain c) g
          = Inr (m, [column_configuration c lo hi
                       (metric_details ''column.distinct_values.count''
                          (JDict [(''column'', JStr c)]) JNone 36)], g')"
proof -
  let ?dk = "JDict [(''column'', JStr c)]"
  let ?vars = "rule_variables default_expect_column_unique_values_to_be_between_rule
               @ [(''bootstrap_random_seed'', JNum (of_int random_seed))]"
  let ?r = "effective_rule random_seed default_expect_column_unique_values_to_be_between_rule"
  let ?env0 = "\<lparr>env_variables = JDict ?vars, env_parameter = JDict [],
                env_domain = column_domain c\<rparr>"
  let ?node1 = "JDict [(''value'', JList (map JNum vals)),
                       (''attributed_value'',
                        JDict (map (\<lambda>(b, v). (b, JList [JNum v])) attributed)),
                       (''details'', metric_details ''column.distinct_values.count'' ?dk JNone 36)]"
  let ?env1 = "?env0\<lparr>env_parameter :=
                 JDict [(''column_distinct_values'', JDict [(''count'', ?node1)])]\<rparr>"
  have s1: "build_metric_parameter B fixture_batch_ids
              \<lparr> pb_name = ''column_distinct_values.count'',
                metric_name = ''column.distinct_values.count'',
                metric_domain_kwargs = JStr ''$domain.domain_kwargs'',
                metric_value_kwargs = JNone \<rparr> ?env0 = Inr ?env1"
    by (simp add: build_metric_parameter_def fetch_series_def resolve_domain_kwargs_def
        resolver_defs column_domain_def agg [unfolded column_domain_def] put_parameter_def
        length_fixture_batch_ids)
  have st: "resolve_settings ?env1
              (range_builder_from_variables ''column_unique_values_range_estimator''
                 ''column.distinct_values.count'' (JStr ''$domain.domain_kwargs''))
            = Inr \<lparr> set_false_positive_rate = 5 / 100, set_estimator = Bootstrap,
                    set_num_samples = 9999, set_random_seed = Some random_seed,
                    set_truncate = \<lparr>lower_bound = Some 0, upper_bound = None\<rparr>,
                    set_round_decimals = Some 0 \<rparr>"
    by (rule default_settings [where vs = ?vars])
       (simp_all add: default_expect_column_unique_values_to_be_between_rule_def
          estimator_variables_def)
  let ?node2 = "JDict [(''value'', JList [JNum lo, JNum hi]),
                       (''details'', metric_details ''column.distinct_values.count'' ?dk JNone 36)]"
  let ?env2 = "?env0\<lparr>env_parameter :=
                 JDict [(''column_distinct_values'', JDict [(''count'', ?node1)]),
                        (''column_unique_values_range_estimator'', ?node2)]\<rparr>"
  have s2: "build_range_parameter B fixture_batch_ids
              (range_builder_from_variables ''column_unique_values_range_estimator''
                 ''column.distinct_values.count'' (JStr ''$domain.domain_kwargs''))
              ?env1 g = Inr (?env2, g')"
    unfolding build_range_parameter_def st
    using est
    by (simp add: fetch_series_def resolve_domain_kwargs_def
        range_builder_from_variables_def column_domain_def agg [unfolded column_domain_def]
        resolver_defs put_parameter_def length_fixture_batch_ids)
  have pbs: "parameter_builders ?r =
      [MetricMultiBatchParameterBuilder
         \<lparr> pb_name = ''column_distinct_values.count'',
           metric_name = ''column.distinct_values.count'',
           metric_domain_kwargs = JStr ''$domain.domain_kwargs'',
           metric_value_kwargs = JNone \<rparr>]"
    by (simp add: default_expect_column_unique_values_to_be_between_rule_def effective_rule_def)
  obtain b where ecbs: "expectation_configuration_builders ?r = [b]"
    and vb: "validation_parameter_builders b =
      [NumericMetricRangeMultiBatchParameterBuilder
         (range_builder_from_variables ''column_unique_values_range_estimator''
            ''column.distinct_values.count'' (JStr ''$domain.domain_kwargs''))]"
    and b: "b = hd (expectation_configuration_builders
                      default_expect_column_unique_values_to_be_between_rule)"
    by (simp add: default_expect_column_unique_values_to_be_between_rule_def effective_rule_def)
  have s3: "emit_expectation_configuration ?env2 b
            = Inr (Some (column_configuration c lo hi
                           (metric_details ''column.distinct_values.count'' ?dk JNone 36)))"
    unfolding b
    by (simp add: emit_expectation_configuration_def condition_holds_def
        default_expect_column_unique_values_to_be_between_rule_def resolver_defs
        column_domain_def column_configuration_def)
  have vars: "rule_variables ?r = ?vars" by (simp add: effective_rule_def)
  show ?thesis
    unfolding evaluate_domain_def pbs ecbs vars
    using s1 s2 s3 vb by auto
qed

lemma row_count_domain_reports:
  assumes "evaluate_domain B fixture_batch_ids
             (effective_rule random_seed default_expect_table_row_count_to_be_between_rule)
             table_domain g = Inr x"
  shows "reports B ''table.row_count'' (JDict []) fixture_batch_ids"
proof -
  from assms obtain r where
    "aggregate B ''table.row_count'' table_domain (JDict []) JNone fixture_batch_ids = Inr r"
    by (auto simp: evaluate_domain_def effective_rule_def
        default_expect_table_row_count_to_be_between_rule_def build_metric_parameter_def
        fetch_series_def resolve_domain_kwargs_def resolver_defs table_domain_def
        split: sum.splits)
  then show ?thesis using aggregate_Inr_iff by blast
qed

lemma column_domain_reports:
  assumes "evaluate_domain B fixture_batch_ids
             (effective_rule random_seed default_expect_column_unique_values_to_be_between_rule)
             (column_domain c) g = Inr x"
  shows "reports B ''column.distinct_values.count'' (JDict [(''column'', JStr c)]) fixture_batch_ids"
proof -
  from assms obtain r where
    "aggregate B ''column.distinct_values.count'' (column_domain c)
       (JDict [(''column'', JStr c)]) JNone fixture_batch_ids = Inr r"
    by (auto simp: evaluate_domain_def effective_rule_def
        default_expect_column_unique_values_to_be_between_rule_def build_metric_parameter_def
        fetch_series_def resolve_domain_kwargs_def resolver_defs column_domain_def
        split: sum.splits)
  then show ?thesis using aggregate_Inr_iff by blast
qed

lemma column_rule_domains:
  assumes "list_all (column_reports B) cols"
  shows "\<exists>ms cs g'.
          evaluate_domains B fixture_batch_ids
            (effective_rule random_seed default_expect_column_unique_values_to_be_between_rule)
            (map column_domain cols) g = Inr (ms, cs, g')
        \<and> map ec_expectation_type cs =
            replicate (length cols) ''expect_column_unique_value_count_to_be_between''
        \<and> map (\<lambda>cfg. map_of (ec_kwargs cfg) ''column'') cs = map (\<lambda>c. Some (JStr c)) cols"
  using assms
proof (induction cols arbitrary: g)
  case Nil
  show ?case by simp
next
  case (Cons c cols)
  let ?r = "effective_rule random_seed default_expect_column_unique_values_to_be_between_rule"
  from Cons.prems have rep: "column_reports B c" and rest: "list_all (column_reports B) cols"
    by simp_all
  from rep obtain vals attributed
    where agg: "aggregate B ''column.distinct_values.count'' (column_domain c)
                  (JDict [(''column'', JStr c)]) JNone fixture_batch_ids = Inr (vals, attributed)"
    using aggregate_Inr_iff [of B "''column.distinct_values.count''" "column_domain c"
        "JDict [(''column'', JStr c)]" fixture_batch_ids]
    by (auto simp: column_reports_def)
  from estimate_default_total [OF agg] obtain lo hi g1
    where est: "estimate B vals (5 / 100) Bootstrap 9999 (Some random_seed)
                  \<lparr>lower_bound = Some 0, upper_bound = None\<rparr> (Some 0) g = Inr ((lo, hi), g1)"
    by blast
  from column_rule_domain [OF agg est] obtain m
    where d: "evaluate_domain B fixture_batch_ids ?r (column_domain c) g
              = Inr (m, [column_configuration c lo hi
                           (metric_details ''column.distinct_values.count''
                              (JDict [(''column'', JStr c)]) JNone 36)], g1)"
    by blast
  from Cons.IH [OF rest, of g1] obtain ms cs g2
    where ds: "evaluate_domains B fixture_batch_ids ?r (map column_domain cols) g1 = Inr (ms, cs, g2)"
      and ty: "map ec_expectation_type cs =
               replicate (length cols) ''expect_column_unique_value_count_to_be_between''"
      and co: "map (\<lambda>cfg. map_of (ec_kwargs cfg) ''column'') cs = map (\<lambda>c. Some (JStr c)) cols"
    by blast
  show ?case
    using d ds ty co by (simp add: column_configuration_def)
qed

lemma column_rule_domains_report:
  assumes "evaluate_domains B fixture_batch_ids
             (effective_rule random_seed default_expect_column_unique_values_to_be_between_rule)
             (map column_domain cols) g = Inr x"
  shows "list_all (column_reports B) cols"
  using assms
proof (induction cols arbitrary: g x)
  case Nil
  show ?case by simp
next
  case (Cons c cols)
  let ?r = "effective_rule random_seed default_expect_column_unique_values_to_be_between_rule"
  from Cons.prems obtain y g1 z
    where d: "evaluate_domain B fixture_batch_ids ?r (column_domain c) g = Inr y"
      and ds: "evaluate_domains B fixture_batch_ids ?r (map column_domain cols) g1 = Inr z"
    by (auto split: sum.splits)
  from column_domain_reports [OF d] Cons.IH [OF ds] show ?case
    by (simp add: column_reports_def)
qed

lemma volume_run_rules:
  assumes "all_reported B"
  shows "\<exists>ms cs g'.
          run_rules B fixture_batch_ids fixture_columns
            (rules (effective_config (volume_data_assistant_config random_seed))) g
          = Inr (ms, cs, g')
        \<and> map ec_expectation_type cs =
            ''expect_table_row_count_to_be_between''
            # replicate (length fixture_columns) ''expect_column_unique_value_count_to_be_between''
        \<and> map (\<lambda>cfg. map_of (ec_kwargs cfg) ''column'') cs
            = None # map (\<lambda>c. Some (JStr c)) fixture_columns"
proof -
  let ?r1 = "effective_rule random_seed default_expect_table_row_count_to_be_between_rule"
  let ?r2 = "effective_rule random_seed default_expect_column_unique_values_to_be_between_rule"
  from assms have rep1: "reports B ''table.row_count'' (JDict []) fixture_batch_ids"
    and rep2: "list_all (column_reports B) fixture_columns"
    by (simp_all add: all_reported_def)
  from rep1 obtain vals attributed
    where agg: "aggregate B ''table.row_count'' table_domain (JDict []) JNone fixture_batch_ids
                = Inr (vals, attributed)"
    using aggregate_Inr_iff [of B "''table.row_count''" table_domain "JDict []" fixture_batch_ids]
    by auto
  from estimate_default_total [OF agg] obtain lo hi g1
    where est: "estimate B vals (5 / 100) Bootstrap 9999 (Some random_seed)
                  \<lparr>lower_bound = Some 0, upper_bound = None\<rparr> (Some 0) g = Inr ((lo, hi), g1)"
    by blast
  from row_count_rule_domain [OF agg est] obtain m
    where d1: "evaluate_domain B fixture_batch_ids ?r1 table_domain g
               = Inr (m, [row_count_configuration lo hi
                            (metric_details ''table.row_count'' (JDict []) JNone 36)], g1)"
    by blast
  then have e1: "evaluate_rule B fixture_batch_ids fixture_columns ?r1 g
               = Inr ([m], [row_count_configuration lo hi
                              (metric_details ''table.row_count'' (JDict []) JNone 36)], g1)"
    by (simp add: evaluate_rule_def row_count_rule_builder)
  from column_rule_domains [OF rep2, of random_seed g1] obtain ms cs g2
    where ds: "evaluate_domains B fixture_batch_ids ?r2 (map column_domain fixture_columns) g1
               = Inr (ms, cs, g2)"
      and ty: "map ec_expectation_type cs =
               replicate (length fixture_columns) ''expect_column_unique_value_count_to_be_between''"
      and co: "map (\<lambda>cfg. map_of (ec_kwargs cfg) ''column'') cs
               = map (\<lambda>c. Some (JStr c)) fixture_columns"
    by blast
  from ds have e2: "evaluate_rule B fixture_batch_ids fixture_columns ?r2 g1 = Inr (ms, cs, g2)"
    by (simp add: evaluate_rule_def column_rule_builder column_survives_unfiltered)
  show ?thesis
    unfolding effective_rules
    using e1 e2 ty co by (simp add: row_count_configuration_def)
qed

lemma volume_run_rules_report:
  assumes "run_rules B fixture_batch_ids fixture_columns
             (rules (effective_config (volume_data_assistant_config random_seed))) g = Inr x"
  shows "all_reported B"
proof -
  let ?r1 = "effective_rule random_seed default_expect_table_row_count_to_be_between_rule"
  let ?r2 = "effective_rule random_seed default_expect_column_unique_values_to_be_between_rule"
  from assms obtain y g1 z
    where e1: "evaluate_rule B fixture_batch_ids fixture_columns ?r1 g = Inr y"
      and e2: "evaluate_rule B fixture_batch_ids fixture_columns ?r2 g1 = Inr z"
    unfolding effective_rules by (auto split: sum.splits)
  from e1 obtain y' where "evaluate_domain B fixture_batch_ids ?r1 table_domain g = Inr y'"
    by (auto simp: evaluate_rule_def row_count_rule_builder split: sum.splits)
  then have "reports B ''table.row_count'' (JDict []) fixture_batch_ids"
    by (rule row_count_domain_reports)
  moreover from e2 have "list_all (column_reports B) fixture_columns"
    by (auto simp: evaluate_rule_def column_rule_builder column_survives_unfiltered
        intro: column_rule_domains_report)
  ultimately show ?thesis by (simp add: all_reported_def)
qed

lemma run_completes:
  assumes "all_reported B"
  shows "\<exists>res g'. run B (volume_data_assistant_config random_seed) fixture_batch_ids fixture_columns name g
                   = Inr (res, g')"
  using volume_run_rules [OF assms, of random_seed g] by (auto simp: run_def)

lemma constant_backend_reports: "reports constant_backend metric dk ids"
  by (simp add: reports_def constant_backend_def list_all_iff map_of_constant)

lemma constant_backend_all_reported: "all_reported constant_backend"
  by (simp add: all_reported_def column_reports_def constant_backend_reports list_all_iff)

section \<open>The claims about the engine\<close>

text \<open>
  C1. For the series of 36 per-batch row counts that are all 10000 the range estimator
  returns 10000 as both bounds, for every false-positive rate of its contract (\<open>[0, 1)\<close>),
  every estimator, positive number of samples, seed, truncation and rounding. And when the
  collaborator reports 10000 rows for each of the 36 batches, the default row-count rule
  emits exactly one assertion, \<open>expect_table_row_count_to_be_between\<close> with
  \<open>min_value = 10000\<close> and \<open>max_value = 10000\<close>: the configuration that
  \<open>test_get_metrics_and_expectations\<close> expects.
\<close>

theorem constant_row_count_gives_10000:
  assumes "0 \<le> fpr" "fpr < 1" "0 < num_samples"
    and "compute_metric B ''table.row_count'' (JDict []) JNone fixture_batch_ids = Some m"
    and "list_all (\<lambda>b. map_of m b = Some 10000) fixture_batch_ids"
  shows "estimate B (replicate 36 10000) fpr est num_samples seed trunc rd g
           = Inr ((10000, 10000), g)
    \<and> (\<exists>ms c. evaluate_rule B fixture_batch_ids fixture_columns
                 (hd (rules (effective_config (volume_data_assistant_config random_seed)))) g
               = Inr (ms, [c], g)
          \<and> ec_expectation_type c = ''expect_table_row_count_to_be_between''
          \<and> map_of (ec_kwargs c) ''min_value'' = Some (JNum 10000)
          \<and> map_of (ec_kwargs c) ''max_value'' = Some (JNum 10000)
          \<and> same_configuration c
               expected_expect_table_row_count_to_be_between_expectation_configuration)"
proof -
  have e: "estimate B (replicate 36 10000) fpr est num_samples seed trunc rd g
           = Inr ((10000, 10000), g)"
    using assms(1-3) by (simp add: estimate_degenerate)
  have agg: "aggregate B ''table.row_count'' table_domain (JDict []) JNone fixture_batch_ids
             = Inr (replicate (length fixture_batch_ids) 10000, map (\<lambda>b. (b, 10000)) fixture_batch_ids)"
    using assms(4,5) by (rule aggregate_constant)
  have est: "estimate B (replicate (length fixture_batch_ids) 10000) (5 / 100) Bootstrap 9999
               (Some random_seed) \<lparr>lower_bound = Some 0, upper_bound = None\<rparr> (Some 0) g
             = Inr ((10000, 10000), g)"
    by (simp add: estimate_degenerate length_fixture_batch_ids)
  from row_count_rule_domain [OF agg est] obtain d
    where "evaluate_domain B fixture_batch_ids
             (effective_rule random_seed default_expect_table_row_count_to_be_between_rule)
             table_domain g
           = Inr (d, [row_count_configuration 10000 10000
                        (metric_details ''table.row_count'' (JDict []) JNone 36)], g)"
    by blast
  then have "evaluate_rule B fixture_batch_ids fixture_columns
               (hd (rules (effective_config (volume_data_assistant_config random_seed)))) g
             = Inr ([d], [row_count_configuration 10000 10000
                           (metric_details ''table.row_count'' (JDict []) JNone 36)], g)"
    by (simp add: effective_rules evaluate_rule_def row_count_rule_builder)
  moreover have "same_configuration
       (row_count_configuration 10000 10000
          (metric_details ''table.row_count'' (JDict []) JNone 36))
       expected_expect_table_row_count_to_be_between_expectation_configuration"
    by (auto simp: same_configuration_def same_dict_def row_count_configuration_def
        metric_details_def
        expected_expect_table_row_count_to_be_between_expectation_configuration_def)
  ultimately show ?thesis
    using e by (auto simp: row_count_configuration_def)
qed

theorem constant_row_count_gives_10000_witness:
  "estimate constant_backend (replicate 36 10000) (5 / 100) Bootstrap 9999 (Some 43)
     \<lparr>lower_bound = Some 0, upper_bound = None\<rparr> (Some 0) 0 = Inr ((10000, 10000), 0)
   \<and> (\<exists>ms c. evaluate_rule constant_backend fixture_batch_ids fixture_columns
                (hd (rules (effective_config (volume_data_assistant_config 43)))) 0
              = Inr (ms, [c], 0)
         \<and> map_of (ec_kwargs c) ''min_value'' = Some (JNum 10000)
         \<and> map_of (ec_kwargs c) ''max_value'' = Some (JNum 10000))"
proof -
  have m: "compute_metric constant_backend ''table.row_count'' (JDict []) JNone fixture_batch_ids
           = Some (map (\<lambda>b. (b, 10000)) fixture_batch_ids)"
    by (simp add: constant_backend_def)
  have "(0::rat) \<le> 5 / 100" "(5::rat) / 100 < 1" "(0::int) < 9999" by simp_all
  from constant_row_count_gives_10000 [OF this m list_all_constant,
      of Bootstrap "Some 43" "\<lparr>lower_bound = Some 0, upper_bound = None\<rparr>" "Some 0" 0 43]
  show ?thesis by blast
qed

text \<open>
  C6. When a run over the fixture (36 batches, 18 columns, the two rules of the
  \<open>VolumeDataAssistant\<close>) completes, its result lists 19 assertion configurations in
  encounter order: first the one row-count assertion of the table domain, whose rule is
  declared first, then one unique-value-count assertion per column, in the order of the
  columns. The emitted suite holds the same list.
\<close>

theorem volume_run_configurations_in_declaration_order:
  assumes "run B (volume_data_assistant_config random_seed) fixture_batch_ids fixture_columns name g
           = Inr (res, g')"
  shows "length (expectation_configurations res) = 19
    \<and> map ec_expectation_type (expectation_configurations res) =
        ''expect_table_row_count_to_be_between''
        # replicate 18 ''expect_column_unique_value_count_to_be_between''
    \<and> map (\<lambda>cfg. map_of (ec_kwargs cfg) ''column'') (expectation_configurations res)
        = None # map (\<lambda>c. Some (JStr c)) fixture_columns
    \<and> suite_expectations (result_suite res) = expectation_configurations res"
proof -
  from assms obtain ms cs
    where rr: "run_rules B fixture_batch_ids fixture_columns
                 (rules (effective_config (volume_data_assistant_config random_seed))) g
               = Inr (ms, cs, g')"
      and res: "expectation_configurations res = cs" "suite_expectations (result_suite res) = cs"
    by (auto simp: run_def split: sum.splits)
  from volume_run_rules_report [OF rr] have "all_reported B" .
  from volume_run_rules [OF this, of random_seed g] rr
  have ty: "map ec_expectation_type cs =
            ''expect_table_row_count_to_be_between''
            # replicate (length fixture_columns) ''expect_column_unique_value_count_to_be_between''"
    and co: "map (\<lambda>cfg. map_of (ec_kwargs cfg) ''column'') cs
             = None # map (\<lambda>c. Some (JStr c)) fixture_columns"
    by auto
  from ty have "length (map ec_expectation_type cs) = 19"
    by (simp add: length_fixture_columns)
  then have "length cs = 19" by simp
  with ty co res show ?thesis by (simp add: length_fixture_columns)
qed

theorem volume_run_configurations_in_declaration_order_witness:
  "\<exists>res g'. run constant_backend (volume_data_assistant_config 43) fixture_batch_ids fixture_columns
              ''my_suite'' 0 = Inr (res, g')
        \<and> length (expectation_configurations res) = 19
        \<and> map ec_expectation_type (expectation_configurations res) =
            ''expect_table_row_count_to_be_between''
            # replicate 18 ''expect_column_unique_value_count_to_be_between''"
proof -
  from run_completes [OF constant_backend_all_reported, of 43 "''my_suite''" 0]
  obtain res g' where r: "run constant_backend (volume_data_assistant_config 43) fixture_batch_ids
                            fixture_columns ''my_suite'' 0 = Inr (res, g')"
    by blast
  from volume_run_configurations_in_declaration_order [OF r] r show ?thesis
    by (intro exI [of _ res] exI [of _ g']) simp
qed


end
